theory Spec2Isabelle
  imports Complex_Main "HOL-Library.Sublist"
begin

section \<open>Strings and values of the host language\<close>

text \<open>
  The script \<^verbatim>\<open>youtube-summarizer.py\<close> is a linear pipeline over Python strings.
  A Python \<^verbatim>\<open>str\<close> is modelled as a \<^typ>\<open>string\<close>; a character stands for a code point
  below 256. The string methods the script and the library functions it calls depend
  on are written out below, each with the Python expression it stands for.
\<close>

text \<open>\<^verbatim>\<open>s.partition(c)\<close>: the part before the first \<open>c\<close>, whether \<open>c\<close> was found, the part after it.\<close>

definition str_partition :: "char \<Rightarrow> string \<Rightarrow> string \<times> bool \<times> string" where
  "str_partition c s =
     (takeWhile (\<lambda>x. x \<noteq> c) s, c \<in> set s, drop 1 (dropWhile (\<lambda>x. x \<noteq> c) s))"

text \<open>\<^verbatim>\<open>s.rpartition(c)\<close>: the same at the last \<open>c\<close>; without one, everything is in the last part.\<close>

definition str_rpartition :: "char \<Rightarrow> string \<Rightarrow> string \<times> bool \<times> string" where
  "str_rpartition c s =
     (if c \<in> set s
      then (rev (drop 1 (dropWhile (\<lambda>x. x \<noteq> c) (rev s))), True,
            rev (takeWhile (\<lambda>x. x \<noteq> c) (rev s)))
      else ([], False, s))"

text \<open>\<^verbatim>\<open>s.split(c)\<close> for a one-character separator: never an empty list.\<close>

fun str_split :: "char \<Rightarrow> string \<Rightarrow> string list" where
  "str_split c [] = [[]]"
| "str_split c (x # xs) =
     (if x = c then [] # str_split c xs
      else (case str_split c xs of
              [] \<Rightarrow> [[x]]
            | y # ys \<Rightarrow> (x # y) # ys))"

text \<open>\<^verbatim>\<open>sep.join(xs)\<close>.\<close>

fun str_join :: "string \<Rightarrow> string list \<Rightarrow> string" where
  "str_join sep [] = []"
| "str_join sep [x] = x"
| "str_join sep (x # y # ys) = x @ sep @ str_join sep (y # ys)"

text \<open>\<^verbatim>\<open>s.replace(c, "")\<close> and \<^verbatim>\<open>s.replace(c, d)\<close> for single characters.\<close>

definition str_remove :: "char \<Rightarrow> string \<Rightarrow> string" where
  "str_remove c s = filter (\<lambda>x. x \<noteq> c) s"

definition str_replace :: "char \<Rightarrow> char \<Rightarrow> string \<Rightarrow> string" where
  "str_replace c d s = map (\<lambda>x. if x = c then d else x) s"

text \<open>
  \<^verbatim>\<open>s.lower()\<close> on code points below 256: the ASCII capitals and the capitals of the
  Latin-1 block (\<open>0xC0\<close> to \<open>0xDE\<close> without the multiplication sign) move up by 32.
\<close>

definition lower_char :: "char \<Rightarrow> char" where
  "lower_char c =
     (let n = of_char c :: nat
      in if (65 \<le> n \<and> n \<le> 90) \<or> (192 \<le> n \<and> n \<le> 222 \<and> n \<noteq> 215)
         then char_of (n + 32) else c)"

definition str_lower :: "string \<Rightarrow> string" where
  "str_lower s = map lower_char s"

definition isascii :: "char \<Rightarrow> bool" where
  "isascii c = ((of_char c :: nat) < 128)"

definition ascii_letters :: string where
  "ascii_letters = ''abcdefghijklmnopqrstuvwxyzABCDEFGHIJKLMNOPQRSTUVWXYZ''"

text \<open>\<^verbatim>\<open>str(n)\<close> for the integers that the log messages print.\<close>

fun str_nat :: "nat \<Rightarrow> string" where
  "str_nat n =
     (if n < 10 then [''0123456789'' ! n]
      else str_nat (n div 10) @ [''0123456789'' ! (n mod 10)])"

declare str_nat.simps [simp del]

definition str_int :: "int \<Rightarrow> string" where
  "str_int i = (if i < 0 then CHR ''-'' # str_nat (nat (- i)) else str_nat (nat i))"

text \<open>
  Exceptions. \<open>KeyError\<close>, \<open>IndexError\<close>, \<open>TypeError\<close> and \<open>ValueError\<close> are raised by
  the interpreter and the standard library on the paths below. What a collaborator
  (the video-info library, the transcript library, the HTTP client) raises is a
  \<open>collab_error\<close>: an instance of \<^verbatim>\<open>Exception\<close> with its \<^verbatim>\<open>str(e)\<close>, or an exception
  outside \<^verbatim>\<open>Exception\<close> (\<^verbatim>\<open>KeyboardInterrupt\<close>, \<^verbatim>\<open>SystemExit\<close>), which
  \<^verbatim>\<open>except Exception\<close> does not catch.
\<close>

datatype collab_error = Error string | Interrupt string

datatype raised = KeyError | IndexError | TypeError | ValueError | Collab collab_error

section \<open>The library functions \<^verbatim>\<open>urlparse\<close> and \<^verbatim>\<open>parse_qs\<close>\<close>

text \<open>
  \<^verbatim>\<open>extract_video_id\<close> reads \<^verbatim>\<open>hostname\<close>, \<^verbatim>\<open>path\<close> and \<^verbatim>\<open>query\<close> of
  \<^verbatim>\<open>urllib.parse.urlparse(url)\<close> and looks \<^verbatim>\<open>v\<close> up in \<^verbatim>\<open>parse_qs(query)\<close>. Both are
  modelled after CPython 3.11's \<^verbatim>\<open>urllib/parse.py\<close>. Three parts of the library are
  not written out and are parameters of the model (record \<open>urllib\<close>):
  \<^item> \<open>check_bracketed_host\<close>: whether \<^verbatim>\<open>_check_bracketed_host\<close> accepts the text between
    \<^verbatim>\<open>[\<close> and \<^verbatim>\<open>]\<close> of a network location (an IPv6 or IPvFuture literal);
  \<^item> \<open>checknetloc_nfkc\<close>: whether \<^verbatim>\<open>_checknetloc\<close> accepts a network location that has a
    non-ASCII character (a test on its NFKC normal form);
  \<^item> \<open>unquote_percent\<close>: what \<^verbatim>\<open>unquote\<close> returns for a string that contains \<^verbatim>\<open>%\<close>
    (percent-decoding, then UTF-8 decoding with replacement).
  Everything else follows the library line by line.
\<close>

record urllib =
  check_bracketed_host :: "string \<Rightarrow> bool"
  checknetloc_nfkc :: "string \<Rightarrow> bool"
  unquote_percent :: "string \<Rightarrow> string"

record split_result =
  scheme :: string
  netloc :: string
  path :: string
  query :: string
  fragment :: string

definition scheme_chars :: string where
  "scheme_chars = ''abcdefghijklmnopqrstuvwxyzABCDEFGHIJKLMNOPQRSTUVWXYZ0123456789+-.''"

definition uses_params :: "string list" where
  "uses_params = ['''', ''ftp'', ''hdl'', ''prospero'', ''http'', ''imap'',
                  ''https'', ''shttp'', ''rtsp'', ''rtsps'', ''rtspu'', ''sip'',
                  ''sips'', ''mms'', ''sftp'', ''tel'']"

text \<open>\<^verbatim>\<open>url.lstrip(_WHATWG_C0_CONTROL_OR_SPACE)\<close>: leading code points up to \<open>0x20\<close> go.\<close>

definition lstrip_c0 :: "string \<Rightarrow> string" where
  "lstrip_c0 s = dropWhile (\<lambda>c. (of_char c :: nat) \<le> 32) s"

text \<open>The loop over \<^verbatim>\<open>_UNSAFE_URL_BYTES_TO_REMOVE\<close>: tab, carriage return and newline go.\<close>

definition remove_unsafe :: "string \<Rightarrow> string" where
  "remove_unsafe s = str_remove (CHR 0x0A) (str_remove (CHR 0x0D) (str_remove (CHR 0x09) s))"

text \<open>
  The scheme: \<^verbatim>\<open>i = url.find(':')\<close>; with \<^verbatim>\<open>i > 0\<close>, an ASCII letter first and only
  scheme characters before the colon, the scheme is that prefix in lower case and the
  URL goes on after the colon.
\<close>

definition split_scheme :: "string \<Rightarrow> string \<times> string" where
  "split_scheme url =
     (case str_partition (CHR '':'') url of (pre, found, rest) \<Rightarrow>
        if found \<and> pre \<noteq> [] \<and> isascii (hd pre) \<and> hd pre \<in> set ascii_letters
           \<and> (\<forall>c \<in> set pre. c \<in> set scheme_chars)
        then (str_lower pre, rest)
        else ([], url))"

text \<open>\<^verbatim>\<open>_splitnetloc(url, 2)\<close>: from index 2 up to the first of \<^verbatim>\<open>/ ? #\<close>, and the rest.\<close>

definition netloc_delim :: "char \<Rightarrow> bool" where
  "netloc_delim c = (c = CHR ''/'' \<or> c = CHR ''?'' \<or> c = CHR ''#'')"

definition splitnetloc :: "string \<Rightarrow> string \<times> string" where
  "splitnetloc url =
     (takeWhile (\<lambda>c. \<not> netloc_delim c) (drop 2 url),
      dropWhile (\<lambda>c. \<not> netloc_delim c) (drop 2 url))"

text \<open>The two bracket tests of \<^verbatim>\<open>urlsplit\<close> and \<^verbatim>\<open>_checknetloc\<close>; \<open>False\<close> is \<^verbatim>\<open>ValueError\<close>.\<close>

definition brackets_ok :: "urllib \<Rightarrow> string \<Rightarrow> bool" where
  "brackets_ok lib nl =
     (let has_open = CHR ''['' \<in> set nl; has_close = CHR '']'' \<in> set nl
      in if (has_open \<and> \<not> has_close) \<or> (has_close \<and> \<not> has_open) then False
         else if has_open \<and> has_close
         then check_bracketed_host lib
                (fst (str_partition (CHR '']'') (snd (snd (str_partition (CHR ''['') nl)))))
         else True)"

definition checknetloc :: "urllib \<Rightarrow> string \<Rightarrow> bool" where
  "checknetloc lib nl = (if nl = [] \<or> (\<forall>c \<in> set nl. isascii c) then True else checknetloc_nfkc lib nl)"

definition urlsplit :: "urllib \<Rightarrow> string \<Rightarrow> raised + split_result" where
  "urlsplit lib url0 =
     (let url1 = remove_unsafe (lstrip_c0 url0);
          (scheme', url2) = split_scheme url1;
          has_netloc = (take 2 url2 = ''//'');
          (netloc', url3) = (if has_netloc then splitnetloc url2 else ([], url2))
      in if has_netloc \<and> \<not> brackets_ok lib netloc' then Inl ValueError
         else
           let (url4, fragment') =
                 (if CHR ''#'' \<in> set url3
                  then (case str_partition (CHR ''#'') url3 of (a, _, b) \<Rightarrow> (a, b))
                  else (url3, []));
               (url5, query') =
                 (if CHR ''?'' \<in> set url4
                  then (case str_partition (CHR ''?'') url4 of (a, _, b) \<Rightarrow> (a, b))
                  else (url4, []))
           in if \<not> checknetloc lib netloc' then Inl ValueError
              else Inr \<lparr>scheme = scheme', netloc = netloc', path = url5,
                        query = query', fragment = fragment'\<rparr>)"

text \<open>
  \<^verbatim>\<open>_splitparams\<close>, called when the path has a semicolon: the parameters start at the
  first semicolon of the last path segment.
\<close>

definition splitparams :: "string \<Rightarrow> string \<times> string" where
  "splitparams url =
     (if CHR ''/'' \<in> set url
      then (case str_rpartition (CHR ''/'') url of (front, _, seg) \<Rightarrow>
              if CHR '';'' \<in> set seg
              then (front @ ''/'' @ fst (str_partition (CHR '';'') seg),
                    snd (snd (str_partition (CHR '';'') seg)))
              else (url, []))
      else (fst (str_partition (CHR '';'') url), snd (snd (str_partition (CHR '';'') url))))"

definition urlparse :: "urllib \<Rightarrow> string \<Rightarrow> raised + split_result" where
  "urlparse lib url =
     (case urlsplit lib url of
        Inl e \<Rightarrow> Inl e
      | Inr r \<Rightarrow>
          if scheme r \<in> set uses_params \<and> CHR '';'' \<in> set (path r)
          then Inr (r\<lparr>path := fst (splitparams (path r))\<rparr>)
          else Inr r)"

text \<open>
  The \<^verbatim>\<open>hostname\<close> property: the network location after the last \<^verbatim>\<open>@\<close>, without the
  port, the part before a \<^verbatim>\<open>%\<close> in lower case; \<^verbatim>\<open>None\<close> when that is empty.
\<close>

definition hostinfo_host :: "string \<Rightarrow> string" where
  "hostinfo_host nl =
     (let hostinfo = snd (snd (str_rpartition (CHR ''@'') nl))
      in case str_partition (CHR ''['') hostinfo of (_, have_open_br, bracketed) \<Rightarrow>
           if have_open_br then fst (str_partition (CHR '']'') bracketed)
           else fst (str_partition (CHR '':'') hostinfo))"

definition hostname :: "split_result \<Rightarrow> string option" where
  "hostname r =
     (let h = hostinfo_host (netloc r)
      in if h = [] then None
         else (case str_partition (CHR ''%'') h of (host, percent, zone) \<Rightarrow>
                 Some (str_lower host @ (if percent then ''%'' else []) @ zone)))"

text \<open>\<^verbatim>\<open>unquote_plus\<close>: plus signs become spaces; without a \<^verbatim>\<open>%\<close> nothing else changes.\<close>

definition unquote :: "urllib \<Rightarrow> string \<Rightarrow> string" where
  "unquote lib s = (if CHR ''%'' \<notin> set s then s else unquote_percent lib s)"

definition unquote_plus :: "urllib \<Rightarrow> string \<Rightarrow> string" where
  "unquote_plus lib s = unquote lib (str_replace (CHR ''+'') (CHR '' '') s)"

text \<open>
  \<^verbatim>\<open>parse_qsl(qs)\<close> with its defaults: fields are separated by \<^verbatim>\<open>&\<close>, an empty field
  or a field with an empty value is dropped, names and values are unquoted.
\<close>

definition parse_field :: "urllib \<Rightarrow> string \<Rightarrow> (string \<times> string) list" where
  "parse_field lib name_value =
     (if name_value = [] then []
      else (case str_partition (CHR ''='') name_value of (name, has_eq, val) \<Rightarrow>
              if val \<noteq> [] then [(unquote_plus lib name, unquote_plus lib val)] else []))"

definition parse_qsl :: "urllib \<Rightarrow> string \<Rightarrow> (string \<times> string) list" where
  "parse_qsl lib qs = (if qs = [] then [] else concat (map (parse_field lib) (str_split (CHR ''&'') qs)))"

text \<open>\<^verbatim>\<open>parse_qs(qs)\<close>: the dictionary from each name to the list of its values, in order.\<close>

definition parse_qs :: "urllib \<Rightarrow> string \<Rightarrow> (string \<rightharpoonup> string list)" where
  "parse_qs lib qs =
     foldl (\<lambda>parsed_result (name, val).
              parsed_result(name \<mapsto> (case parsed_result name of
                                        None \<Rightarrow> [val]
                                      | Some vs \<Rightarrow> vs @ [val])))
           Map.empty (parse_qsl lib qs)"

section \<open>Values of a parsed JSON document\<close>

text \<open>
  What \<^verbatim>\<open>response.json()\<close> returns: \<^verbatim>\<open>None\<close>, a truth value, a number, a string, a list
  or a dictionary with string keys (an association list with distinct keys).
\<close>

datatype json =
    JNull
  | JBool bool
  | JNum rat
  | JStr string
  | JArr "json list"
  | JObj "(string \<times> json) list"

text \<open>\<^verbatim>\<open>x[k]\<close> for a string key: only a dictionary is subscriptable by a string.\<close>

fun getitem_key :: "json \<Rightarrow> string \<Rightarrow> raised + json" where
  "getitem_key (JObj kvs) k = (case map_of kvs k of None \<Rightarrow> Inl KeyError | Some v \<Rightarrow> Inr v)"
| "getitem_key _ k = Inl TypeError"

text \<open>\<^verbatim>\<open>x[0]\<close>: the first element of a list, the first character of a string.\<close>

fun getitem_0 :: "json \<Rightarrow> raised + json" where
  "getitem_0 (JArr xs) = (case xs of [] \<Rightarrow> Inl IndexError | x # _ \<Rightarrow> Inr x)"
| "getitem_0 (JStr s) = (case s of [] \<Rightarrow> Inl IndexError | c # _ \<Rightarrow> Inr (JStr [c]))"
| "getitem_0 (JObj kvs) = Inl KeyError"
| "getitem_0 _ = Inl TypeError"

text \<open>\<^verbatim>\<open>len(x)\<close>.\<close>

fun py_len :: "json \<Rightarrow> raised + nat" where
  "py_len (JStr s) = Inr (length s)"
| "py_len (JArr xs) = Inr (length xs)"
| "py_len (JObj kvs) = Inr (length (remdups (map fst kvs)))"
| "py_len _ = Inl TypeError"

text \<open>The truth value of \<^verbatim>\<open>if x:\<close>.\<close>

fun truthy :: "json \<Rightarrow> bool" where
  "truthy JNull = False"
| "truthy (JBool b) = b"
| "truthy (JNum r) = (r \<noteq> 0)"
| "truthy (JStr s) = (s \<noteq> [])"
| "truthy (JArr xs) = (xs \<noteq> [])"
| "truthy (JObj kvs) = (kvs \<noteq> [])"

text \<open>
  \<^verbatim>\<open>if x:\<close> on a value that is \<^verbatim>\<open>None\<close> or a string, and on one that is \<^verbatim>\<open>None\<close> or a
  JSON value: the value when it is true, \<open>None\<close> when it is false.
\<close>

definition truthy_str :: "string option \<Rightarrow> string option" where
  "truthy_str v = (case v of None \<Rightarrow> None | Some s \<Rightarrow> if s \<noteq> [] then Some s else None)"

definition truthy_json :: "json option \<Rightarrow> json option" where
  "truthy_json v = (case v of None \<Rightarrow> None | Some j \<Rightarrow> if truthy j then Some j else None)"

definition then_raise :: "raised + 'a \<Rightarrow> ('a \<Rightarrow> raised + 'b) \<Rightarrow> raised + 'b" where
  "then_raise r f = (case r of Inl e \<Rightarrow> Inl e | Inr v \<Rightarrow> f v)"

section \<open>The world of a run\<close>

text \<open>
  What the script can see and change: the log (level and message, without the time
  stamp of the format string), the calls it makes to its collaborators and to the
  file system, in order, the files (name to encoding and text), and the progress bar.
\<close>

datatype level = INFO | ERROR

record message =
  msg_role :: string
  msg_content :: string

record body =
  model :: string
  max_tokens :: int
  messages :: "message list"

record request =
  post_url :: string
  post_headers :: "(string \<times> string) list"
  post_json :: body

record response =
  status_code :: int
  response_text :: string
  response_json :: "collab_error + json"

record entry =
  entry_text :: string
  entry_start :: rat
  entry_duration :: rat

record text_file =
  file_encoding :: string
  file_text :: string

datatype call =
    ExtractInfo string
  | GetTranscript string
  | Post request
  | OpenFile string

record world =
  logs :: "(level \<times> string) list"
  calls :: "call list"
  files :: "string \<rightharpoonup> text_file"
  progress :: nat

text \<open>
  The environment of a run: the library parameters, the two settings read from
  \<^verbatim>\<open>config.ini\<close>, and the answers of the three collaborators:
  \<^verbatim>\<open>YoutubeDL.extract_info\<close> (the info dictionary, reduced to its text fields),
  \<^verbatim>\<open>YouTubeTranscriptApi.get_transcript\<close> and \<^verbatim>\<open>requests.post\<close>.
\<close>

record env =
  lib :: urllib
  CLAUDE_API_KEY :: string
  CLAUDE_API_URL :: string
  extract_info :: "string \<Rightarrow> collab_error + (string \<rightharpoonup> string)"
  yt_get_transcript :: "string \<Rightarrow> collab_error + entry list"
  requests_post :: "request \<Rightarrow> collab_error + response"

definition logger_info :: "string \<Rightarrow> world \<Rightarrow> world" where
  "logger_info m w = w\<lparr>logs := logs w @ [(INFO, m)]\<rparr>"

definition logger_error :: "string \<Rightarrow> world \<Rightarrow> world" where
  "logger_error m w = w\<lparr>logs := logs w @ [(ERROR, m)]\<rparr>"

definition record_call :: "call \<Rightarrow> world \<Rightarrow> world" where
  "record_call c w = w\<lparr>calls := calls w @ [c]\<rparr>"

definition pbar_update :: "nat \<Rightarrow> world \<Rightarrow> world" where
  "pbar_update n w = w\<lparr>progress := progress w + n\<rparr>"

text \<open>
  \<^verbatim>\<open>open(filename, 'w', encoding=enc)\<close> creates or empties the file; \<^verbatim>\<open>f.write(s)\<close>
  appends. The file system is a map from names to files in which every name can be
  opened: the errors of the operating system (a missing directory, no permission, no
  space) are outside the model, and a file holds its text as written, before encoding.
\<close>

definition open_w :: "string \<Rightarrow> string \<Rightarrow> world \<Rightarrow> world" where
  "open_w filename enc w =
     record_call (OpenFile filename)
       (w\<lparr>files := (files w)(filename \<mapsto> \<lparr>file_encoding = enc, file_text = []\<rparr>)\<rparr>)"

definition f_write :: "string \<Rightarrow> string \<Rightarrow> world \<Rightarrow> world" where
  "f_write filename s w =
     (case files w filename of
        None \<Rightarrow> w
      | Some f \<Rightarrow> w\<lparr>files := (files w)(filename \<mapsto> f\<lparr>file_text := file_text f @ s\<rparr>)\<rparr>)"

section \<open>The script\<close>

definition extract_video_id :: "urllib \<Rightarrow> string \<Rightarrow> world \<Rightarrow> (raised + string option) \<times> world" where
  "extract_video_id ul url w =
     (case urlparse ul url of
        Inl e \<Rightarrow> (Inl e, w)
      | Inr parsed_url \<Rightarrow>
          if hostname parsed_url = Some ''youtu.be''
          then (Inr (Some (drop 1 (path parsed_url))), w)
          else if hostname parsed_url \<in> {Some ''www.youtube.com'', Some ''youtube.com''}
                  \<and> path parsed_url = ''/watch''
          then (case parse_qs ul (query parsed_url) ''v'' of
                  None \<Rightarrow> (Inr None, w)
                | Some vs \<Rightarrow> (case vs of [] \<Rightarrow> (Inl IndexError, w) | v # _ \<Rightarrow> (Inr (Some v), w)))
          else if hostname parsed_url \<in> {Some ''www.youtube.com'', Some ''youtube.com''}
                  \<and> (prefix ''/embed/'' (path parsed_url) \<or> prefix ''/v/'' (path parsed_url))
          then (case drop 2 (str_split (CHR ''/'') (path parsed_url)) of
                  [] \<Rightarrow> (Inl IndexError, w)
                | x # _ \<Rightarrow> (Inr (Some x), w))
          else (Inr None, logger_error ''Could not extract video ID from URL'' w))"

definition get_video_details :: "env \<Rightarrow> string \<Rightarrow> world \<Rightarrow> (raised + string option) \<times> world" where
  "get_video_details env video_id w0 =
     (let w1 = logger_info (''Fetching details for video ID: '' @ video_id) w0;
          w2 = record_call (ExtractInfo (''https://www.youtube.com/watch?v='' @ video_id)) w1
      in case extract_info env (''https://www.youtube.com/watch?v='' @ video_id) of
           Inl e \<Rightarrow> (Inl (Collab e), w2)
         | Inr info \<Rightarrow>
             (case truthy_str (info ''title'') of
                Some video_title \<Rightarrow>
                  (Inr (Some video_title), logger_info (''Video title: '' @ video_title) w2)
              | None \<Rightarrow> (Inr None, logger_error ''Video details not found'' w2)))"

definition get_transcript :: "env \<Rightarrow> string \<Rightarrow> world \<Rightarrow> (raised + string option) \<times> world" where
  "get_transcript env video_id w0 =
     (let w1 = logger_info (''Fetching transcript for video ID: '' @ video_id) w0;
          w2 = record_call (GetTranscript video_id) w1
      in case yt_get_transcript env video_id of
           Inr transcript \<Rightarrow>
             (let full_transcript = str_join '' '' (map entry_text transcript)
              in (Inr (Some full_transcript),
                  logger_info (''Transcript fetched successfully. Length: ''
                               @ str_nat (length full_transcript) @ '' characters'') w2))
         | Inl (Error e) \<Rightarrow>
             (Inr None,
              logger_error (''An error occurred while fetching the transcript: '' @ e) w2)
         | Inl (Interrupt e) \<Rightarrow> (Inl (Collab (Interrupt e)), w2))"

text \<open>The request of \<^verbatim>\<open>claude_api_request\<close>: the endpoint, \<^verbatim>\<open>headers\<close> and \<^verbatim>\<open>data\<close>.\<close>

definition api_request :: "env \<Rightarrow> string \<Rightarrow> request" where
  "api_request env prompt =
     \<lparr>post_url = CLAUDE_API_URL env,
      post_headers = [(''Content-Type'', ''application/json''),
                      (''x-api-key'', CLAUDE_API_KEY env),
                      (''anthropic-version'', ''2023-06-01'')],
      post_json = \<lparr>model = ''claude-3-opus-20240229'', max_tokens = 1000,
                   messages = [\<lparr>msg_role = ''user'', msg_content = prompt\<rparr>]\<rparr>\<rparr>"

text \<open>\<^verbatim>\<open>response.json()['content'][0]['text']\<close>.\<close>

definition response_content :: "response \<Rightarrow> raised + json" where
  "response_content response =
     then_raise
       (then_raise
          (then_raise
             (case response_json response of Inl e \<Rightarrow> Inl (Collab e) | Inr j \<Rightarrow> Inr j)
             (\<lambda>j. getitem_key j ''content''))
          getitem_0)
       (\<lambda>c. getitem_key c ''text'')"

definition claude_api_request :: "env \<Rightarrow> string \<Rightarrow> world \<Rightarrow> (raised + json option) \<times> world" where
  "claude_api_request env prompt w0 =
     (let w1 = logger_info ''Sending request to Claude Opus API'' w0;
          w2 = record_call (Post (api_request env prompt)) w1
      in case requests_post env (api_request env prompt) of
           Inl e \<Rightarrow> (Inl (Collab e), w2)
         | Inr response \<Rightarrow>
             (let w3 = logger_info (''Claude API response status code: ''
                                    @ str_int (status_code response)) w2
              in if status_code response = 200
                 then (case response_content response of
                         Inl e \<Rightarrow> (Inl e, w3)
                       | Inr content \<Rightarrow>
                           (case py_len content of
                              Inl e \<Rightarrow> (Inl e, w3)
                            | Inr n \<Rightarrow>
                                (Inr (Some content),
                                 logger_info (''Claude Opus API response received. Length: ''
                                              @ str_nat n @ '' characters'') w3)))
                 else (Inr None,
                       logger_error (''Error from Claude API: '' @ response_text response) w3)))"

definition prompt_head :: string where
  "prompt_head =
     ''Please provide a comprehensive summary of the following YouTube video transcript. The summary should:\<newline>''
     @ ''\<newline>''
     @ ''1. Capture the main topics and key points discussed in the video.\<newline>''
     @ ''2. Highlight any important insights, data, or arguments presented.\<newline>''
     @ ''3. Maintain the original tone and perspective of the speaker.\<newline>''
     @ ''4. Be structured in a clear and coherent manner.\<newline>''
     @ ''5. Be detailed enough to give a thorough understanding of the video content, but concise enough to be quickly digestible.\<newline>''
     @ ''\<newline>''
     @ ''Here's the transcript:\<newline>''
     @ ''\<newline>''"

definition prompt_tail :: string where
  "prompt_tail = ''\<newline>'' @ ''\<newline>'' @ ''Summary:''"

definition generate_summary :: "env \<Rightarrow> string \<Rightarrow> world \<Rightarrow> (raised + json option) \<times> world" where
  "generate_summary env content w0 =
     (let w1 = logger_info ''Generating summary'' w0;
          prompt = prompt_head @ content @ prompt_tail
      in case claude_api_request env prompt w1 of
           (Inl e, w2) \<Rightarrow> (Inl e, w2)
         | (Inr summary, w2) \<Rightarrow>
             (case truthy_json summary of
                Some _ \<Rightarrow> (Inr summary, logger_info ''Summary generated successfully'' w2)
              | None \<Rightarrow> (Inr summary, logger_error ''Failed to generate summary'' w2)))"

text \<open>
  \<^verbatim>\<open>f.write(summary)\<close> raises \<^verbatim>\<open>TypeError\<close> for a summary that is not a string; the
  \<^verbatim>\<open>with\<close> block then closes the file with what was written before.
\<close>

definition save_to_file :: "string \<Rightarrow> string \<Rightarrow> json \<Rightarrow> string \<Rightarrow> world \<Rightarrow> (raised + unit) \<times> world" where
  "save_to_file video_id video_title summary transcript w0 =
     (let filename = video_id @ ''_summary.txt'';
          w1 = open_w filename ''utf-8'' w0;
          w2 = f_write filename (''Video Title: '' @ video_title @ ''\<newline>'') w1;
          w3 = f_write filename (''Video URL: https://www.youtube.com/watch?v='' @ video_id
                                 @ ''\<newline>\<newline>'') w2;
          w4 = f_write filename ''Summary:\<newline>'' w3
      in case summary of
           JStr s \<Rightarrow>
             (let w5 = f_write filename s w4;
                  w6 = f_write filename ''\<newline>\<newline>Full Transcript:\<newline>'' w5;
                  w7 = f_write filename transcript w6
              in (Inr (), logger_info (''Summary and transcript saved to '' @ filename) w7))
         | _ \<Rightarrow> (Inl TypeError, w4))"

definition finished :: "world \<Rightarrow> world" where
  "finished w = logger_info ''Finished processing video'' w"

definition main :: "env \<Rightarrow> string \<Rightarrow> world \<Rightarrow> (raised + unit) \<times> world" where
  "main env url w0 =
     (case extract_video_id (lib env) url w0 of
        (Inl e, w1) \<Rightarrow> (Inl e, w1)
      | (Inr r, w1) \<Rightarrow>
     (case truthy_str r of
        None \<Rightarrow>
          (Inr (), logger_error ''Invalid YouTube URL. Please provide a valid YouTube video URL.'' w1)
      | Some video_id \<Rightarrow>
     (case get_video_details env video_id (w1\<lparr>progress := 0\<rparr>) of
        (Inl e, w2) \<Rightarrow> (Inl e, w2)
      | (Inr r, w2) \<Rightarrow>
     (case truthy_str r of
        None \<Rightarrow> (Inr (), finished (logger_error ''Failed to get video details'' (pbar_update 1 w2)))
      | Some video_title \<Rightarrow>
     (case get_transcript env video_id (pbar_update 1 w2) of
        (Inl e, w3) \<Rightarrow> (Inl e, w3)
      | (Inr r, w3) \<Rightarrow>
     (case truthy_str r of
        None \<Rightarrow> (Inr (), finished (logger_error ''Failed to get transcript'' (pbar_update 1 w3)))
      | Some transcript \<Rightarrow>
     (case generate_summary env transcript (pbar_update 1 w3) of
        (Inl e, w4) \<Rightarrow> (Inl e, w4)
      | (Inr r, w4) \<Rightarrow>
     (case truthy_json r of
        None \<Rightarrow> (Inr (), finished (logger_error ''Failed to generate summary'' (pbar_update 1 w4)))
      | Some summary \<Rightarrow>
     (case save_to_file video_id video_title summary transcript (pbar_update 1 w4) of
        (Inl e, w5) \<Rightarrow> (Inl e, w5)
      | (Inr _, w5) \<Rightarrow> (Inr (), finished (pbar_update 1 w5)))))))))))"

text \<open>The world in which \<open>main\<close> calls \<open>generate_summary\<close>, once the first three steps are done.\<close>

definition before_summary :: "env \<Rightarrow> string \<Rightarrow> string \<Rightarrow> world \<Rightarrow> world" where
  "before_summary env url video_id w =
     pbar_update 1 (snd (get_transcript env video_id
       (pbar_update 1 (snd (get_video_details env video_id
          ((snd (extract_video_id (lib env) url w))\<lparr>progress := 0\<rparr>))))))"

section \<open>Identifiers and an example run\<close>

text \<open>
  The characters of the platform's video identifiers: letters, digits, hyphen and
  underscore. A well-formed identifier is a non-empty string of them.
\<close>

definition id_chars :: string where
  "id_chars = ''abcdefghijklmnopqrstuvwxyzABCDEFGHIJKLMNOPQRSTUVWXYZ0123456789-_''"

text \<open>
  An environment and a world to run the script in: a library that rejects every
  bracketed host and leaves percent escapes alone, collaborators with fixed answers,
  and a world with nothing logged and no file.
\<close>

definition example_lib :: urllib where
  "example_lib = \<lparr>check_bracketed_host = (\<lambda>h. False), checknetloc_nfkc = (\<lambda>n. True),
                   unquote_percent = (\<lambda>s. s)\<rparr>"

definition example_info :: "string \<rightharpoonup> string" where
  "example_info = [''title'' \<mapsto> ''A talk'']"

definition example_untitled :: "string \<rightharpoonup> string" where
  "example_untitled = [''id'' \<mapsto> ''ABC123'']"

definition example_entries :: "entry list" where
  "example_entries =
     [\<lparr>entry_text = ''a'', entry_start = 0, entry_duration = 2\<rparr>,
      \<lparr>entry_text = ''b'', entry_start = 2, entry_duration = 3\<rparr>,
      \<lparr>entry_text = ''c'', entry_start = 5, entry_duration = 1\<rparr>]"

definition example_payload :: json where
  "example_payload =
     JObj [(''id'', JStr ''msg_1''),
           (''content'', JArr [JObj [(''type'', JStr ''text''), (''text'', JStr ''A summary.'')]])]"

definition example_response :: "int \<Rightarrow> json \<Rightarrow> response" where
  "example_response code payload =
     \<lparr>status_code = code, response_text = ''the body'', response_json = Inr payload\<rparr>"

definition example_env ::
  "(collab_error + (string \<rightharpoonup> string)) \<Rightarrow> (collab_error + entry list) \<Rightarrow> (collab_error + response) \<Rightarrow> env"
where
  "example_env info transcript response =
     \<lparr>lib = example_lib, CLAUDE_API_KEY = ''key'', CLAUDE_API_URL = ''https://api.example/v1/messages'',
      extract_info = (\<lambda>u. info), yt_get_transcript = (\<lambda>v. transcript),
      requests_post = (\<lambda>r. response)\<rparr>"

definition example_world :: world where
  "example_world = \<lparr>logs = [], calls = [], files = Map.empty, progress = 0\<rparr>"

section \<open>The shapes of a video URL\<close>

text \<open>
  The URLs that claim C1 speaks of are put together from parts. The definitions of this
  section describe these parts; they are conditions on the input of \<open>extract_video_id\<close>
  and no part of the script.

  A string without the three characters that \<^verbatim>\<open>urlsplit\<close> removes from a URL (tab,
  carriage return, newline).
\<close>

definition no_unsafe :: "string \<Rightarrow> bool" where
  "no_unsafe s = (CHR 0x09 \<notin> set s \<and> CHR 0x0D \<notin> set s \<and> CHR 0x0A \<notin> set s)"

text \<open>
  A scheme: an ASCII letter, then letters, digits, \<^verbatim>\<open>+\<close>, \<^verbatim>\<open>-\<close> and \<^verbatim>\<open>.\<close>. A URL starts
  with a scheme and \<^verbatim>\<open>://\<close> (\<open>Some sch\<close>), or with \<^verbatim>\<open>//\<close> alone (\<open>None\<close>).
\<close>

definition valid_scheme :: "string \<Rightarrow> bool" where
  "valid_scheme sch = (sch \<noteq> [] \<and> hd sch \<in> set ascii_letters \<and> set sch \<subseteq> set scheme_chars)"

definition valid_start :: "string option \<Rightarrow> bool" where
  "valid_start so = (case so of None \<Rightarrow> True | Some sch \<Rightarrow> valid_scheme sch)"

definition url_start :: "string option \<Rightarrow> string" where
  "url_start so = (case so of None \<Rightarrow> ''//'' | Some sch \<Rightarrow> sch @ ''://'')"

text \<open>
  An authority (user information, host, port): a string without tab, carriage return,
  newline, \<^verbatim>\<open>/\<close>, \<^verbatim>\<open>?\<close> and \<^verbatim>\<open>#\<close> that passes the two tests of \<^verbatim>\<open>urlsplit\<close> on a network
  location. Its host name is the one the \<^verbatim>\<open>hostname\<close> property reads from it.
\<close>

definition authority :: "urllib \<Rightarrow> string \<Rightarrow> bool" where
  "authority ul auth =
     (no_unsafe auth \<and> \<not> list_ex netloc_delim auth \<and> brackets_ok ul auth \<and> checknetloc ul auth)"

definition host_of :: "string \<Rightarrow> string option" where
  "host_of auth = hostname \<lparr>scheme = [], netloc = auth, path = [], query = [], fragment = []\<rparr>"

text \<open>
  What may follow the identifier. After a short link: nothing, a query or a fragment.
  After \<^verbatim>\<open>/embed/ID\<close> and \<^verbatim>\<open>/v/ID\<close>: nothing, further path segments, a query or a fragment.
  After the query of \<^verbatim>\<open>/watch\<close>: nothing or a fragment.
\<close>

definition starts_with :: "(char \<Rightarrow> bool) \<Rightarrow> string \<Rightarrow> bool" where
  "starts_with P t = (case t of [] \<Rightarrow> True | c # _ \<Rightarrow> P c)"

definition tail_ok :: "string \<Rightarrow> bool" where
  "tail_ok t = starts_with (\<lambda>c. c = CHR ''?'' \<or> c = CHR ''#'') t"

definition segment_tail_ok :: "string \<Rightarrow> bool" where
  "segment_tail_ok t = starts_with netloc_delim t"

definition fragment_ok :: "string \<Rightarrow> bool" where
  "fragment_ok t = starts_with (\<lambda>c. c = CHR ''#'') t"

text \<open>
  The query of a \<^verbatim>\<open>/watch\<close> URL around the field \<^verbatim>\<open>v=ID\<close>. The fields before it are
  empty or end in \<^verbatim>\<open>&\<close>, and none of them that \<^verbatim>\<open>parse_qsl\<close> keeps has the decoded name
  \<^verbatim>\<open>v\<close>; the fields after it are empty or start with \<^verbatim>\<open>&\<close>. Neither part has a tab,
  carriage return, newline or \<^verbatim>\<open>#\<close>.
\<close>

definition fields_before :: "urllib \<Rightarrow> string \<Rightarrow> bool" where
  "fields_before ul q =
     (no_unsafe q \<and> CHR ''#'' \<notin> set q \<and> (q = [] \<or> last q = CHR ''&'')
      \<and> ''v'' \<notin> fst ` set (parse_qsl ul q))"

definition fields_after :: "string \<Rightarrow> bool" where
  "fields_after q = (no_unsafe q \<and> CHR ''#'' \<notin> set q \<and> starts_with (\<lambda>c. c = CHR ''&'') q)"

section \<open>What the steps do to the world\<close>

lemma logger_info_fields [simp]:
  "logs (logger_info m w) = logs w @ [(INFO, m)]" "calls (logger_info m w) = calls w"
  "files (logger_info m w) = files w" "progress (logger_info m w) = progress w"
  by (simp_all add: logger_info_def)

lemma logger_error_fields [simp]:
  "logs (logger_error m w) = logs w @ [(ERROR, m)]" "calls (logger_error m w) = calls w"
  "files (logger_error m w) = files w" "progress (logger_error m w) = progress w"
  by (simp_all add: logger_error_def)

lemma record_call_fields [simp]:
  "logs (record_call c w) = logs w" "calls (record_call c w) = calls w @ [c]"
  "files (record_call c w) = files w" "progress (record_call c w) = progress w"
  by (simp_all add: record_call_def)

lemma pbar_update_fields [simp]:
  "logs (pbar_update n w) = logs w" "calls (pbar_update n w) = calls w"
  "files (pbar_update n w) = files w" "progress (pbar_update n w) = progress w + n"
  by (simp_all add: pbar_update_def)

lemma finished_fields [simp]:
  "logs (finished w) = logs w @ [(INFO, ''Finished processing video'')]"
  "calls (finished w) = calls w" "files (finished w) = files w"
  "progress (finished w) = progress w"
  by (simp_all add: finished_def)

lemma extract_video_id_world:
  "\<exists>ms. snd (extract_video_id ul url w) = w\<lparr>logs := logs w @ ms\<rparr>"
proof -
  have b: "logger_error m w = w\<lparr>logs := logs w @ [(ERROR, m)]\<rparr>" for m
    by (simp add: logger_error_def)
  show ?thesis
    unfolding extract_video_id_def
    by (auto split: sum.splits option.splits list.splits intro: exI [of _ "[]"] b)
qed

lemma extract_video_id_calls: "calls (snd (extract_video_id ul url w)) = calls w"
  and extract_video_id_files: "files (snd (extract_video_id ul url w)) = files w"
  using extract_video_id_world [of ul url w] by auto

lemma get_video_details_calls:
  "calls (snd (get_video_details env video_id w)) =
     calls w @ [ExtractInfo (''https://www.youtube.com/watch?v='' @ video_id)]"
  and get_video_details_files: "files (snd (get_video_details env video_id w)) = files w"
  by (simp_all add: get_video_details_def Let_def split: sum.splits option.splits)

lemma get_transcript_calls:
  "calls (snd (get_transcript env video_id w)) = calls w @ [GetTranscript video_id]"
  and get_transcript_files: "files (snd (get_transcript env video_id w)) = files w"
  by (simp_all add: get_transcript_def Let_def split: sum.splits collab_error.splits)

lemma get_video_details_ok:
  "extract_info env (''https://www.youtube.com/watch?v='' @ video_id) = Inr info \<Longrightarrow>
   info ''title'' = Some video_title \<Longrightarrow> video_title \<noteq> [] \<Longrightarrow>
   fst (get_video_details env video_id w) = Inr (Some video_title)"
  by (simp add: get_video_details_def Let_def truthy_str_def)

lemma get_video_details_none:
  "extract_info env (''https://www.youtube.com/watch?v='' @ video_id) = Inr info \<Longrightarrow>
   truthy_str (info ''title'') = None \<Longrightarrow>
   fst (get_video_details env video_id w) = Inr None"
  by (simp add: get_video_details_def Let_def)

lemma get_transcript_ok:
  "yt_get_transcript env video_id = Inr es \<Longrightarrow>
   fst (get_transcript env video_id w) = Inr (Some (str_join '' '' (map entry_text es)))"
  by (simp add: get_transcript_def Let_def)

lemma get_transcript_none:
  "yt_get_transcript env video_id = Inl (Error e) \<Longrightarrow> fst (get_transcript env video_id w) = Inr None"
  by (simp add: get_transcript_def Let_def)

lemma claude_api_request_calls:
  "calls (snd (claude_api_request env prompt w)) = calls w @ [Post (api_request env prompt)]"
  by (simp add: claude_api_request_def Let_def split: sum.splits)

lemma claude_api_request_files:
  "files (snd (claude_api_request env prompt w)) = files w"
  by (simp add: claude_api_request_def Let_def split: sum.splits)

lemma generate_summary_calls:
  "calls (snd (generate_summary env content w)) =
     calls w @ [Post (api_request env (prompt_head @ content @ prompt_tail))]"
proof -
  obtain r w' where c: "claude_api_request env (prompt_head @ content @ prompt_tail) (logger_info ''Generating summary'' w) = (r, w')"
    by (cases "claude_api_request env (prompt_head @ content @ prompt_tail) (logger_info ''Generating summary'' w)")
  have "calls w' = calls w @ [Post (api_request env (prompt_head @ content @ prompt_tail))]"
    using claude_api_request_calls [of env "prompt_head @ content @ prompt_tail" "logger_info ''Generating summary'' w"] c by simp
  then show ?thesis
    by (simp add: generate_summary_def Let_def c split: sum.splits option.splits)
qed

lemma claude_api_request_non_success:
  assumes p: "requests_post env (api_request env prompt) = Inr response"
    and s: "status_code response \<noteq> 200"
  shows "fst (claude_api_request env prompt w) = Inr None"
    "logs (snd (claude_api_request env prompt w)) =
       logs w @ [(INFO, ''Sending request to Claude Opus API''),
                 (INFO, ''Claude API response status code: '' @ str_int (status_code response)),
                 (ERROR, ''Error from Claude API: '' @ response_text response)]"
  using s by (simp_all add: claude_api_request_def Let_def p)

lemma generate_summary_result:
  "fst (generate_summary env content w) =
     fst (claude_api_request env (prompt_head @ content @ prompt_tail) (logger_info ''Generating summary'' w))"
  by (simp add: generate_summary_def Let_def case_prod_beta split: sum.splits option.splits)

lemma generate_summary_logs:
  "\<exists>ms. logs (snd (generate_summary env content w)) =
     logs (snd (claude_api_request env (prompt_head @ content @ prompt_tail) (logger_info ''Generating summary'' w))) @ ms"
  by (simp add: generate_summary_def Let_def case_prod_beta split: sum.splits option.splits)

lemma generate_summary_files:
  "files (snd (generate_summary env content w)) = files w"
  by (simp add: generate_summary_def Let_def case_prod_beta claude_api_request_files
      split: sum.splits option.splits)

lemma claude_api_request_result:
  "fst (claude_api_request env prompt w) = fst (claude_api_request env prompt w')"
  by (simp add: claude_api_request_def Let_def split: sum.splits)

lemma generate_summary_indep:
  "fst (generate_summary env content w) = fst (generate_summary env content w')"
  unfolding generate_summary_result by (rule claude_api_request_result)

lemma claude_api_request_missing_field:
  assumes p: "requests_post env (api_request env prompt) = Inr response"
    and s: "status_code response = 200"
    and j: "response_json response = Inr (JObj doc)"
    and m: "map_of doc ''content'' = None
            \<or> (map_of doc ''content'' = Some (JArr (JObj item # items)) \<and> map_of item ''text'' = None)"
  shows "fst (claude_api_request env prompt w) = Inl KeyError"
  using m by (auto simp add: claude_api_request_def Let_def p s j response_content_def then_raise_def)

lemma before_summary_calls:
  "calls (before_summary env url video_id w) =
     calls w @ [ExtractInfo (''https://www.youtube.com/watch?v='' @ video_id), GetTranscript video_id]"
  and before_summary_files: "files (before_summary env url video_id w) = files w"
  by (simp_all add: before_summary_def get_transcript_calls get_transcript_files
      get_video_details_calls get_video_details_files extract_video_id_calls extract_video_id_files)

lemma main_reaches_summary:
  assumes x: "fst (extract_video_id (lib env) url w) = Inr (Some video_id)" and v: "video_id \<noteq> []"
    and i: "extract_info env (''https://www.youtube.com/watch?v='' @ video_id) = Inr info"
    and t: "info ''title'' = Some video_title" "video_title \<noteq> []"
    and f: "yt_get_transcript env video_id = Inr es" "str_join '' '' (map entry_text es) \<noteq> []"
  shows "main env url w =
        (case generate_summary env (str_join '' '' (map entry_text es)) (before_summary env url video_id w) of
           (Inl e, w4) \<Rightarrow> (Inl e, w4)
         | (Inr r, w4) \<Rightarrow>
            (case truthy_json r of
               None \<Rightarrow> (Inr (), finished (logger_error ''Failed to generate summary'' (pbar_update 1 w4)))
             | Some summary \<Rightarrow>
                (case save_to_file video_id video_title summary (str_join '' '' (map entry_text es)) (pbar_update 1 w4) of
                   (Inl e, w5) \<Rightarrow> (Inl e, w5)
                 | (Inr _, w5) \<Rightarrow> (Inr (), finished (pbar_update 1 w5)))))"
  using v t(2) f(2)
  by (simp add: main_def case_prod_beta x before_summary_def truthy_str_def
      get_video_details_ok [OF i t] get_transcript_ok [OF f(1)])

lemma main_metadata_failure:
  assumes x: "fst (extract_video_id (lib env) url w) = Inr (Some video_id)" and v: "video_id \<noteq> []"
    and i: "extract_info env (''https://www.youtube.com/watch?v='' @ video_id) = Inr info"
    and t: "truthy_str (info ''title'') = None"
  shows "fst (main env url w) = Inr ()"
    "calls (snd (main env url w)) = calls w @ [ExtractInfo (''https://www.youtube.com/watch?v='' @ video_id)]"
    "files (snd (main env url w)) = files w"
  using v
  by (simp_all add: main_def case_prod_beta x truthy_str_def get_video_details_none [OF i t]
      get_video_details_calls get_video_details_files extract_video_id_calls extract_video_id_files)

lemma main_transcript_failure:
  assumes x: "fst (extract_video_id (lib env) url w) = Inr (Some video_id)" and v: "video_id \<noteq> []"
    and i: "extract_info env (''https://www.youtube.com/watch?v='' @ video_id) = Inr info"
    and t: "info ''title'' = Some video_title" "video_title \<noteq> []"
    and f: "yt_get_transcript env video_id = Inl (Error e)
            \<or> (yt_get_transcript env video_id = Inr es \<and> str_join '' '' (map entry_text es) = [])"
  shows "fst (main env url w) = Inr ()"
    "calls (snd (main env url w)) = calls w @ [ExtractInfo (''https://www.youtube.com/watch?v='' @ video_id), GetTranscript video_id]"
    "files (snd (main env url w)) = files w"
proof -
  obtain r where r: "\<And>W. fst (get_transcript env video_id W) = Inr r" "truthy_str r = None"
  proof (cases "yt_get_transcript env video_id = Inl (Error e)")
    case True
    show ?thesis
      by (rule that [of None]) (simp_all add: get_transcript_none [OF True] truthy_str_def)
  next
    case False
    with f have a: "yt_get_transcript env video_id = Inr es" and b: "str_join '' '' (map entry_text es) = []"
      by simp_all
    show ?thesis
      by (rule that [of "Some []"]) (simp_all add: get_transcript_ok [OF a] b truthy_str_def)
  qed
  show "fst (main env url w) = Inr ()"
    "calls (snd (main env url w)) = calls w @ [ExtractInfo (''https://www.youtube.com/watch?v='' @ video_id), GetTranscript video_id]"
    "files (snd (main env url w)) = files w"
    using v t(2)
    by (simp_all add: main_def case_prod_beta x r get_video_details_ok [OF i t]
        get_transcript_calls get_transcript_files truthy_str_def [of "Some video_id"]
        truthy_str_def [of "Some video_title"]
        get_video_details_calls get_video_details_files extract_video_id_calls extract_video_id_files)
qed

lemma main_summary_failure:
  assumes x: "fst (extract_video_id (lib env) url w) = Inr (Some video_id)" and v: "video_id \<noteq> []"
    and i: "extract_info env (''https://www.youtube.com/watch?v='' @ video_id) = Inr info"
    and t: "info ''title'' = Some video_title" "video_title \<noteq> []"
    and f: "yt_get_transcript env video_id = Inr es" "str_join '' '' (map entry_text es) \<noteq> []"
    and g: "fst (generate_summary env (str_join '' '' (map entry_text es)) w') = Inr r" "truthy_json r = None"
  shows "fst (main env url w) = Inr ()"
    "calls (snd (main env url w)) =
       calls w @ [ExtractInfo (''https://www.youtube.com/watch?v='' @ video_id), GetTranscript video_id,
                  Post (api_request env (prompt_head @ str_join '' '' (map entry_text es) @ prompt_tail))]"
    "files (snd (main env url w)) = files w"
proof -
  let ?tr = "str_join '' '' (map entry_text es)"
  let ?W = "before_summary env url video_id w"
  obtain w4 where g4: "generate_summary env ?tr ?W = (Inr r, w4)"
    using g(1) generate_summary_indep [of env ?tr ?W w'] by (cases "generate_summary env ?tr ?W") simp
  have m: "main env url w = (Inr (), finished (logger_error ''Failed to generate summary'' (pbar_update 1 w4)))"
    by (simp add: main_reaches_summary [OF x v i t f] g4 g(2))
  have c4: "calls w4 = calls ?W @ [Post (api_request env (prompt_head @ ?tr @ prompt_tail))]"
    using generate_summary_calls [of env ?tr ?W] g4 by simp
  have f4: "files w4 = files ?W"
    using generate_summary_files [of env ?tr ?W] g4 by simp
  show "fst (main env url w) = Inr ()" by (simp add: m)
  show "files (snd (main env url w)) = files w" by (simp add: m f4 before_summary_files)
  show "calls (snd (main env url w)) =
            calls w @ [ExtractInfo (''https://www.youtube.com/watch?v='' @ video_id),
                       GetTranscript video_id,
                       Post (api_request env (prompt_head @ ?tr @ prompt_tail))]"
    by (simp add: m c4 before_summary_calls)
qed

lemma main_summary_raises:
  assumes x: "fst (extract_video_id (lib env) url w) = Inr (Some video_id)" and v: "video_id \<noteq> []"
    and i: "extract_info env (''https://www.youtube.com/watch?v='' @ video_id) = Inr info"
    and t: "info ''title'' = Some video_title" "video_title \<noteq> []"
    and f: "yt_get_transcript env video_id = Inr es" "str_join '' '' (map entry_text es) \<noteq> []"
    and g: "fst (generate_summary env (str_join '' '' (map entry_text es)) w') = Inl e"
  shows "fst (main env url w) = Inl e"
    "calls (snd (main env url w)) =
       calls w @ [ExtractInfo (''https://www.youtube.com/watch?v='' @ video_id), GetTranscript video_id,
                  Post (api_request env (prompt_head @ str_join '' '' (map entry_text es) @ prompt_tail))]"
    "files (snd (main env url w)) = files w"
proof -
  let ?tr = "str_join '' '' (map entry_text es)"
  let ?W = "before_summary env url video_id w"
  obtain w4 where g4: "generate_summary env ?tr ?W = (Inl e, w4)"
    using g(1) generate_summary_indep [of env ?tr ?W w'] by (cases "generate_summary env ?tr ?W") simp
  have m: "main env url w = (Inl e, w4)"
    by (simp add: main_reaches_summary [OF x v i t f] g4)
  have c4: "calls w4 = calls ?W @ [Post (api_request env (prompt_head @ ?tr @ prompt_tail))]"
    using generate_summary_calls [of env ?tr ?W] g4 by simp
  have f4: "files w4 = files ?W"
    using generate_summary_files [of env ?tr ?W] g4 by simp
  show "fst (main env url w) = Inl e" by (simp add: m)
  show "files (snd (main env url w)) = files w" by (simp add: m f4 before_summary_files)
  show "calls (snd (main env url w)) =
            calls w @ [ExtractInfo (''https://www.youtube.com/watch?v='' @ video_id),
                       GetTranscript video_id,
                       Post (api_request env (prompt_head @ ?tr @ prompt_tail))]"
    by (simp add: m c4 before_summary_calls)
qed

lemma main_invalid_url:
  assumes x: "fst (extract_video_id (lib env) url w) = Inr r" and r: "r = None \<or> r = Some []"
  shows "fst (main env url w) = Inr ()" "calls (snd (main env url w)) = calls w"
    "files (snd (main env url w)) = files w"
    "last (logs (snd (main env url w))) = (ERROR, ''Invalid YouTube URL. Please provide a valid YouTube video URL.'')"
  using r
  by (auto simp add: main_def case_prod_beta x truthy_str_def extract_video_id_calls extract_video_id_files)

section \<open>The identifier of a URL\<close>

lemma takeWhile_neq_absent: "c \<notin> set s \<Longrightarrow> takeWhile (\<lambda>x. x \<noteq> c) s = s"
  by (induction s) auto

lemma dropWhile_neq_absent: "c \<notin> set s \<Longrightarrow> dropWhile (\<lambda>x. x \<noteq> c) s = []"
  by (induction s) auto

lemma str_replace_absent: "c \<notin> set s \<Longrightarrow> str_replace c d s = s"
  by (induction s) (auto simp: str_replace_def)

lemma str_split_absent: "c \<notin> set s \<Longrightarrow> str_split c s = [s]"
  by (induction s) auto

lemma remove_unsafe_Cons:
  "remove_unsafe (c # s) =
     (if c = CHR 0x09 \<or> c = CHR 0x0D \<or> c = CHR 0x0A then remove_unsafe s else c # remove_unsafe s)"
  by (induction s) (auto simp: remove_unsafe_def str_remove_def)

lemma remove_unsafe_absent:
  "CHR 0x09 \<notin> set s \<Longrightarrow> CHR 0x0D \<notin> set s \<Longrightarrow> CHR 0x0A \<notin> set s \<Longrightarrow> remove_unsafe s = s"
  by (induction s) (auto simp: remove_unsafe_def str_remove_def)

lemma id_absent:
  assumes "set ident \<subseteq> set id_chars"
  shows "CHR 0x09 \<notin> set ident" "CHR 0x0A \<notin> set ident" "CHR 0x0D \<notin> set ident"
    "CHR '':'' \<notin> set ident" "CHR ''/'' \<notin> set ident" "CHR ''?'' \<notin> set ident"
    "CHR ''#'' \<notin> set ident" "CHR '';'' \<notin> set ident" "CHR ''&'' \<notin> set ident"
    "CHR ''='' \<notin> set ident" "CHR ''+'' \<notin> set ident" "CHR ''%'' \<notin> set ident"
  using assms by (auto simp: id_chars_def)

text \<open>
  A URL that is put together from a start, an authority and a rest is split by
  \<^verbatim>\<open>urlsplit\<close> into these parts again: the scheme in lower case, the authority as
  network location, and the rest divided at the first \<^verbatim>\<open>#\<close> and the first \<^verbatim>\<open>?\<close>.
\<close>

lemma takeWhile_sep: "c \<notin> set a \<Longrightarrow> takeWhile (\<lambda>x. x \<noteq> c) (a @ c # b) = a"
  by (induction a) auto

lemma dropWhile_sep: "c \<notin> set a \<Longrightarrow> dropWhile (\<lambda>x. x \<noteq> c) (a @ c # b) = c # b"
  by (induction a) auto

lemma remove_unsafe_append: "remove_unsafe (a @ b) = remove_unsafe a @ remove_unsafe b"
  by (simp add: remove_unsafe_def str_remove_def)

lemma remove_unsafe_no_unsafe: "no_unsafe s \<Longrightarrow> remove_unsafe s = s"
  by (simp add: no_unsafe_def remove_unsafe_absent)

lemma scheme_char_facts:
  "c \<in> set scheme_chars \<Longrightarrow> c \<noteq> CHR '':'' \<and> c \<noteq> CHR 0x09 \<and> c \<noteq> CHR 0x0D \<and> c \<noteq> CHR 0x0A"
  by (auto simp: scheme_chars_def)

lemma letter_facts: "c \<in> set ascii_letters \<Longrightarrow> isascii c \<and> \<not> (of_char c :: nat) \<le> 32"
  by (auto simp: ascii_letters_def isascii_def)

lemma valid_scheme_facts:
  assumes "valid_scheme sch"
  shows "CHR '':'' \<notin> set sch" "no_unsafe sch" "lstrip_c0 (sch @ r) = sch @ r"
    "sch \<noteq> []" "isascii (hd sch)" "hd sch \<in> set ascii_letters" "\<forall>c \<in> set sch. c \<in> set scheme_chars"
proof -
  from assms have n: "sch \<noteq> []" and h: "hd sch \<in> set ascii_letters"
    and s: "set sch \<subseteq> set scheme_chars"
    by (simp_all add: valid_scheme_def)
  show "CHR '':'' \<notin> set sch" using s scheme_char_facts by blast
  show "no_unsafe sch" unfolding no_unsafe_def using s scheme_char_facts by blast
  show "lstrip_c0 (sch @ r) = sch @ r"
    using n letter_facts [OF h] by (cases sch) (simp_all add: lstrip_c0_def)
  show "sch \<noteq> []" by (rule n)
  show "isascii (hd sch)" using letter_facts [OF h] by simp
  show "hd sch \<in> set ascii_letters" by (rule h)
  show "\<forall>c \<in> set sch. c \<in> set scheme_chars" using s by blast
qed

lemma split_scheme_valid:
  assumes "valid_scheme sch"
  shows "split_scheme (sch @ CHR '':'' # r) = (str_lower sch, r)"
  using valid_scheme_facts(1,4,5,6,7) [OF assms]
  by (simp add: split_scheme_def str_partition_def takeWhile_sep dropWhile_sep)

lemma split_scheme_slash: "split_scheme (CHR ''/'' # r) = ([], CHR ''/'' # r)"
  by (simp add: split_scheme_def str_partition_def ascii_letters_def)

lemma starts_with_remove_unsafe:
  assumes "starts_with P t" and "\<not> P (CHR 0x09)" "\<not> P (CHR 0x0D)" "\<not> P (CHR 0x0A)"
  shows "starts_with P (remove_unsafe t)"
  using assms by (cases t) (auto simp: starts_with_def remove_unsafe_Cons remove_unsafe_def str_remove_def)

lemma takeWhile_stop:
  assumes "\<forall>x \<in> set a. P x" and "starts_with (\<lambda>c. \<not> P c) t"
  shows "takeWhile P (a @ t) = a" and "dropWhile P (a @ t) = t"
  using assms by (cases t; simp add: starts_with_def)+

lemma splitnetloc_authority:
  assumes "\<not> list_ex netloc_delim auth" and "starts_with netloc_delim R"
  shows "splitnetloc (''//'' @ auth @ R) = (auth, R)"
proof -
  have a: "\<forall>x \<in> set auth. \<not> netloc_delim x"
    using assms(1) by (simp add: list_ex_iff)
  have b: "starts_with (\<lambda>c. \<not> \<not> netloc_delim c) R"
    using assms(2) by simp
  show ?thesis
    by (simp add: splitnetloc_def takeWhile_stop [OF a b])
qed

lemma urlsplit_authority:
  assumes so: "valid_start so" and au: "authority ul auth"
    and r: "starts_with netloc_delim rest"
  shows "urlsplit ul (url_start so @ auth @ rest) =
    Inr \<lparr>scheme = (case so of None \<Rightarrow> [] | Some sch \<Rightarrow> str_lower sch), netloc = auth,
         path = takeWhile (\<lambda>c. c \<noteq> CHR ''?'') (takeWhile (\<lambda>c. c \<noteq> CHR ''#'') (remove_unsafe rest)),
         query = drop 1 (dropWhile (\<lambda>c. c \<noteq> CHR ''?'')
                           (takeWhile (\<lambda>c. c \<noteq> CHR ''#'') (remove_unsafe rest))),
         fragment = drop 1 (dropWhile (\<lambda>c. c \<noteq> CHR ''#'') (remove_unsafe rest))\<rparr>"
proof -
  let ?R = "remove_unsafe rest"
  let ?s = "case so of None \<Rightarrow> [] | Some sch \<Rightarrow> str_lower sch"
  from au have nu: "no_unsafe auth" and nd: "\<not> list_ex netloc_delim auth"
    and br: "brackets_ok ul auth" and cn: "checknetloc ul auth"
    by (simp_all add: authority_def)
  have R: "starts_with netloc_delim ?R"
    by (rule starts_with_remove_unsafe [OF r]) (simp_all add: netloc_delim_def)
  have 1: "remove_unsafe (lstrip_c0 (url_start so @ auth @ rest)) = url_start so @ auth @ ?R"
  proof (cases so)
    case None
    then show ?thesis
      by (simp add: url_start_def lstrip_c0_def remove_unsafe_Cons
          remove_unsafe_append remove_unsafe_no_unsafe [OF nu])
  next
    case (Some sch)
    then have v: "valid_scheme sch" using so by (simp add: valid_start_def)
    have "lstrip_c0 (sch @ ''://'' @ auth @ rest) = sch @ ''://'' @ auth @ rest"
      by (rule valid_scheme_facts(3) [OF v])
    then show ?thesis
      using Some
      by (simp add: url_start_def remove_unsafe_Cons remove_unsafe_append
          remove_unsafe_no_unsafe [OF nu] remove_unsafe_no_unsafe [OF valid_scheme_facts(2) [OF v]])
  qed
  have 2: "split_scheme (url_start so @ auth @ ?R) = (?s, ''//'' @ auth @ ?R)"
  proof (cases so)
    case None
    then show ?thesis using split_scheme_slash [of "''/'' @ auth @ ?R"]
      by (simp add: url_start_def)
  next
    case (Some sch)
    then have v: "valid_scheme sch" using so by (simp add: valid_start_def)
    show ?thesis using Some split_scheme_valid [OF v, of "''//'' @ auth @ ?R"]
      by (simp add: url_start_def)
  qed
  have 3: "splitnetloc (''//'' @ auth @ ?R) = (auth, ?R)"
    by (rule splitnetloc_authority [OF nd R])
  have n3: "splitnetloc (CHR ''/'' # CHR ''/'' # auth @ ?R) = (auth, ?R)"
    using 3 by simp
  show ?thesis
    unfolding urlsplit_def
    by (simp add: 1 2 n3 br cn Let_def str_partition_def takeWhile_neq_absent dropWhile_neq_absent)
qed


text \<open>
  The result of \<open>extract_video_id\<close> in terms of the parse result: the lookup of \<open>v\<close> in
  \<^verbatim>\<open>parse_qs\<close> gives the first pair of \<^verbatim>\<open>parse_qsl\<close> with that name, and a path under
  \<^verbatim>\<open>/embed/\<close> or \<^verbatim>\<open>/v/\<close> always has a third segment, so no subscript fails.
\<close>

lemma hostname_host_of: "hostname r = host_of (netloc r)"
  by (simp add: hostname_def host_of_def)

lemma str_split_nonempty: "str_split c s \<noteq> []"
  by (induction s) (auto split: list.splits)

lemma str_split_append: "str_split c (a @ c # b) = str_split c a @ str_split c b"
  by (induction a) (auto split: list.splits simp: str_split_nonempty)

lemma str_split_hd: "\<exists>ys. str_split c s = takeWhile (\<lambda>x. x \<noteq> c) s # ys"
  by (induction s) (auto split: list.splits)

lemma parse_qsl_append: "parse_qsl ul (a @ CHR ''&'' # b) = parse_qsl ul a @ parse_qsl ul b"
  by (simp add: parse_qsl_def str_split_append parse_field_def)

lemma parse_qsl_before:
  assumes "q = [] \<or> last q = CHR ''&''"
  shows "parse_qsl ul (q @ r) = parse_qsl ul q @ parse_qsl ul r"
proof (cases "q = []")
  case True
  then show ?thesis by (simp add: parse_qsl_def)
next
  case False
  with assms have q: "q = butlast q @ [CHR ''&'']"
    by (metis append_butlast_last_id)
  have a: "parse_qsl ul (q @ r) = parse_qsl ul (butlast q) @ parse_qsl ul r"
    using parse_qsl_append [of ul "butlast q" r] q by (metis append.assoc append_Cons append_Nil)
  have b: "parse_qsl ul q = parse_qsl ul (butlast q)"
    using parse_qsl_append [of ul "butlast q" "[]"] q by (simp add: parse_qsl_def)
  show ?thesis by (simp add: a b)
qed

lemma parse_qs_lookup:
  "foldl (\<lambda>parsed_result (name, val).
            parsed_result(name \<mapsto> (case parsed_result name of
                                      None \<Rightarrow> [val]
                                    | Some vs \<Rightarrow> vs @ [val]))) m ps k
   = (if filter (\<lambda>p. fst p = k) ps = [] then m k
      else Some ((case m k of None \<Rightarrow> [] | Some vs \<Rightarrow> vs) @ map snd (filter (\<lambda>p. fst p = k) ps)))"
  by (induction ps arbitrary: m) (auto split: option.splits)

lemma map_of_filter:
  "map_of ps k = (case filter (\<lambda>p. fst p = k) ps of [] \<Rightarrow> None | p # _ \<Rightarrow> Some (snd p))"
  by (induction ps) auto

lemma parse_qs_first:
  "(case parse_qs ul qs k of None \<Rightarrow> Inr None
    | Some vs \<Rightarrow> (case vs of [] \<Rightarrow> Inl IndexError | v # _ \<Rightarrow> Inr (Some v)))
   = Inr (map_of (parse_qsl ul qs) k)"
  by (simp add: parse_qs_def parse_qs_lookup map_of_filter split: list.splits)

lemma embed_segment:
  "drop 2 (str_split (CHR ''/'') (''/embed/'' @ r)) \<noteq> []"
  "hd (drop 2 (str_split (CHR ''/'') (''/embed/'' @ r))) = takeWhile (\<lambda>c. c \<noteq> CHR ''/'') r"
  "drop 2 (str_split (CHR ''/'') (''/v/'' @ r)) \<noteq> []"
  "hd (drop 2 (str_split (CHR ''/'') (''/v/'' @ r))) = takeWhile (\<lambda>c. c \<noteq> CHR ''/'') r"
  using str_split_hd [of "CHR ''/''" r] str_split_nonempty [of "CHR ''/''" r]
  by (auto split: list.splits)

lemma extract_parsed:
  assumes p: "urlparse ul url = Inr p"
  shows "hostname p = Some ''youtu.be''
         \<Longrightarrow> fst (extract_video_id ul url w) = Inr (Some (drop 1 (path p)))"
    and "hostname p \<in> {Some ''www.youtube.com'', Some ''youtube.com''} \<Longrightarrow> path p = ''/watch''
         \<Longrightarrow> fst (extract_video_id ul url w) = Inr (map_of (parse_qsl ul (query p)) ''v'')"
    and "hostname p \<in> {Some ''www.youtube.com'', Some ''youtube.com''} \<Longrightarrow> prefix ''/embed/'' (path p)
         \<Longrightarrow> fst (extract_video_id ul url w)
             = Inr (Some (takeWhile (\<lambda>c. c \<noteq> CHR ''/'') (drop 7 (path p))))"
    and "hostname p \<in> {Some ''www.youtube.com'', Some ''youtube.com''} \<Longrightarrow> prefix ''/v/'' (path p)
         \<Longrightarrow> fst (extract_video_id ul url w)
             = Inr (Some (takeWhile (\<lambda>c. c \<noteq> CHR ''/'') (drop 3 (path p))))"
proof -
  show "hostname p = Some ''youtu.be''
         \<Longrightarrow> fst (extract_video_id ul url w) = Inr (Some (drop 1 (path p)))"
    by (simp add: extract_video_id_def p)
  show "fst (extract_video_id ul url w) = Inr (map_of (parse_qsl ul (query p)) ''v'')"
    if "hostname p \<in> {Some ''www.youtube.com'', Some ''youtube.com''}" "path p = ''/watch''"
  proof -
    have "fst (extract_video_id ul url w) =
       (case parse_qs ul (query p) ''v'' of None \<Rightarrow> Inr None
        | Some vs \<Rightarrow> (case vs of [] \<Rightarrow> Inl IndexError | v # _ \<Rightarrow> Inr (Some v)))"
      using that by (auto simp add: extract_video_id_def p split: option.splits list.splits)
    then show ?thesis by (simp only: parse_qs_first)
  qed
  show "fst (extract_video_id ul url w)
             = Inr (Some (takeWhile (\<lambda>c. c \<noteq> CHR ''/'') (drop 7 (path p))))"
    if "hostname p \<in> {Some ''www.youtube.com'', Some ''youtube.com''}" "prefix ''/embed/'' (path p)"
  proof -
    from that(2) obtain r where r: "path p = ''/embed/'' @ r"
      by (auto simp: prefix_def)
    have d: "drop 7 (path p) = r" by (simp add: r)
    have n: "path p \<noteq> ''/watch''" by (simp add: r)
    show ?thesis
      using that embed_segment(1,2) [of r] unfolding d
      by (cases "drop 2 (str_split (CHR ''/'') (''/embed/'' @ r))")
         (auto simp add: extract_video_id_def p r)
  qed
  show "fst (extract_video_id ul url w)
             = Inr (Some (takeWhile (\<lambda>c. c \<noteq> CHR ''/'') (drop 3 (path p))))"
    if "hostname p \<in> {Some ''www.youtube.com'', Some ''youtube.com''}" "prefix ''/v/'' (path p)"
  proof -
    from that(2) obtain r where r: "path p = ''/v/'' @ r"
      by (auto simp: prefix_def)
    have d: "drop 3 (path p) = r" by (simp add: r)
    show ?thesis
      using that embed_segment(3,4) [of r] unfolding d
      by (cases "drop 2 (str_split (CHR ''/'') (''/v/'' @ r))")
         (auto simp add: extract_video_id_def p r)
  qed
qed


text \<open>The parse results of the URLs of the four shapes, and the identifier they yield.\<close>

lemma takeWhile_pass:
  "c \<notin> set a \<Longrightarrow> takeWhile (\<lambda>x. x \<noteq> c) (a @ b) = a @ takeWhile (\<lambda>x. x \<noteq> c) b"
  by (induction a) auto

lemma takeWhile_path:
  assumes "CHR ''?'' \<notin> set a" "CHR ''#'' \<notin> set a" "tail_ok T"
  shows "takeWhile (\<lambda>c. c \<noteq> CHR ''?'') (takeWhile (\<lambda>c. c \<noteq> CHR ''#'') (a @ T)) = a"
proof (cases T)
  case Nil
  then show ?thesis using assms by (simp add: takeWhile_neq_absent)
next
  case (Cons c t)
  with assms(3) consider "c = CHR ''?''" | "c = CHR ''#''"
    by (auto simp: tail_ok_def starts_with_def)
  then show ?thesis
  proof cases
    case 1
    have "takeWhile (\<lambda>c. c \<noteq> CHR ''#'') (a @ CHR ''?'' # t)
            = a @ CHR ''?'' # takeWhile (\<lambda>c. c \<noteq> CHR ''#'') t"
      using assms(2) by (simp add: takeWhile_pass)
    then show ?thesis using Cons 1 assms(1) by (simp add: takeWhile_sep)
  next
    case 2
    then show ?thesis using Cons assms by (simp add: takeWhile_sep takeWhile_neq_absent)
  qed
qed

lemma takeWhile_path_slash:
  assumes "CHR ''?'' \<notin> set a" "CHR ''#'' \<notin> set a"
  shows "\<exists>y. takeWhile (\<lambda>c. c \<noteq> CHR ''?'') (takeWhile (\<lambda>c. c \<noteq> CHR ''#'') (a @ CHR ''/'' # t))
              = a @ CHR ''/'' # y"
  using assms by (simp add: takeWhile_pass)

lemma str_rpartition_sep: "c \<notin> set b \<Longrightarrow> str_rpartition c (a @ c # b) = (a, True, b)"
  by (simp add: str_rpartition_def dropWhile_sep takeWhile_sep)

lemma splitparams_prefix:
  assumes "prefix (a @ ''/'') s"
  shows "prefix (a @ ''/'') (fst (splitparams s))"
proof -
  from assms obtain r where s: "s = a @ CHR ''/'' # r"
    by (auto simp: prefix_def)
  have "CHR ''/'' \<in> set (CHR ''/'' # r)" by simp
  then obtain ys zs where d: "CHR ''/'' # r = ys @ CHR ''/'' # zs" and z: "CHR ''/'' \<notin> set zs"
    by (meson split_list_last)
  have s': "s = (a @ ys) @ CHR ''/'' # zs" by (simp add: s d)
  have rp: "str_rpartition (CHR ''/'') s = (a @ ys, True, zs)"
    unfolding s' by (rule str_rpartition_sep [OF z])
  have m: "CHR ''/'' \<in> set s" by (simp add: s)
  have y: "prefix (a @ ''/'') ((a @ ys) @ CHR ''/'' # x)" for x
    using d by (cases ys) auto
  show ?thesis
  proof (cases "CHR '';'' \<in> set zs")
    case True
    then have "fst (splitparams s) = (a @ ys) @ CHR ''/'' # fst (str_partition (CHR '';'') zs)"
      by (simp add: splitparams_def m rp)
    then show ?thesis using y by simp
  next
    case False
    then have "fst (splitparams s) = s"
      by (simp add: splitparams_def m rp)
    then show ?thesis using assms by simp
  qed
qed

lemma urlparse_path:
  assumes so: "valid_start so" and au: "authority ul auth"
    and a: "no_unsafe a" "CHR ''?'' \<notin> set a" "CHR ''#'' \<notin> set a" "CHR '';'' \<notin> set a"
    and t: "tail_ok tail"
  shows "\<exists>p. urlparse ul (url_start so @ auth @ CHR ''/'' # a @ tail) = Inr p
             \<and> hostname p = host_of auth \<and> path p = CHR ''/'' # a"
proof -
  have r: "starts_with netloc_delim (CHR ''/'' # a @ tail)"
    by (simp add: starts_with_def netloc_delim_def)
  have T: "tail_ok (remove_unsafe tail)"
    unfolding tail_ok_def
    by (rule starts_with_remove_unsafe) (use t in \<open>simp_all add: tail_ok_def\<close>)
  have ru: "remove_unsafe (CHR ''/'' # a @ tail) = (CHR ''/'' # a) @ remove_unsafe tail"
    by (simp add: remove_unsafe_Cons remove_unsafe_append remove_unsafe_no_unsafe [OF a(1)])
  have pth: "takeWhile (\<lambda>c. c \<noteq> CHR ''?'')
               (takeWhile (\<lambda>c. c \<noteq> CHR ''#'') (remove_unsafe (CHR ''/'' # a @ tail))) = CHR ''/'' # a"
    unfolding ru by (rule takeWhile_path) (use a T in simp_all)
  show ?thesis
    unfolding urlparse_def urlsplit_authority [OF so au r] pth
    using a(4) by (simp add: hostname_host_of)
qed

lemma urlparse_segment:
  assumes so: "valid_start so" and au: "authority ul auth"
    and a: "no_unsafe a" "CHR ''?'' \<notin> set a" "CHR ''#'' \<notin> set a" "CHR '';'' \<notin> set a"
    and t: "segment_tail_ok tail"
  shows "\<exists>p. urlparse ul (url_start so @ auth @ CHR ''/'' # a @ tail) = Inr p
             \<and> hostname p = host_of auth
             \<and> (path p = CHR ''/'' # a \<or> prefix ((CHR ''/'' # a) @ ''/'') (path p))"
proof (cases "tail_ok tail")
  case True
  from urlparse_path [OF so au a True] show ?thesis by blast
next
  case False
  with t obtain t' where tl: "tail = CHR ''/'' # t'"
    by (cases tail) (auto simp: segment_tail_ok_def tail_ok_def starts_with_def netloc_delim_def)
  have r: "starts_with netloc_delim (CHR ''/'' # a @ tail)"
    by (simp add: starts_with_def netloc_delim_def)
  have ru: "remove_unsafe (CHR ''/'' # a @ tail) = (CHR ''/'' # a) @ CHR ''/'' # remove_unsafe t'"
    by (simp add: tl remove_unsafe_Cons remove_unsafe_append remove_unsafe_no_unsafe [OF a(1)])
  obtain y where pth: "takeWhile (\<lambda>c. c \<noteq> CHR ''?'')
               (takeWhile (\<lambda>c. c \<noteq> CHR ''#'') (remove_unsafe (CHR ''/'' # a @ tail)))
               = (CHR ''/'' # a) @ CHR ''/'' # y"
    unfolding ru using takeWhile_path_slash [of "CHR ''/'' # a" "remove_unsafe t'"] a by auto
  have pf: "prefix ((CHR ''/'' # a) @ ''/'') ((CHR ''/'' # a) @ CHR ''/'' # y)"
    by simp
  show ?thesis
    unfolding urlparse_def urlsplit_authority [OF so au r] pth
    using pf splitparams_prefix [OF pf] by (simp add: hostname_host_of)
qed

lemma urlparse_watch:
  assumes so: "valid_start so" and au: "authority ul auth"
    and q: "no_unsafe qry" "CHR ''#'' \<notin> set qry" and f: "fragment_ok frag"
  shows "\<exists>p. urlparse ul (url_start so @ auth @ ''/watch?'' @ qry @ frag) = Inr p
             \<and> hostname p = host_of auth \<and> path p = ''/watch'' \<and> query p = qry"
proof -
  have r: "starts_with netloc_delim (''/watch?'' @ qry @ frag)"
    by (simp add: starts_with_def netloc_delim_def)
  have F: "starts_with (\<lambda>c. \<not> c \<noteq> CHR ''#'') (remove_unsafe frag)"
    using starts_with_remove_unsafe [of "\<lambda>c. c = CHR ''#''" frag] f
    by (simp add: fragment_ok_def)
  have ru: "remove_unsafe (''/watch?'' @ qry @ frag) = (''/watch?'' @ qry) @ remove_unsafe frag"
    by (simp add: remove_unsafe_Cons remove_unsafe_append remove_unsafe_no_unsafe [OF q(1)])
  have n: "\<forall>x \<in> set (''/watch?'' @ qry). x \<noteq> CHR ''#''"
    using q(2) by auto
  have tw: "takeWhile (\<lambda>c. c \<noteq> CHR ''#'') (remove_unsafe (''/watch?'' @ qry @ frag)) = ''/watch?'' @ qry"
    unfolding ru by (rule takeWhile_stop(1) [OF n F])
  have w: "''/watch?'' @ qry = ''/watch'' @ CHR ''?'' # qry" by simp
  have pth: "takeWhile (\<lambda>c. c \<noteq> CHR ''?'') (''/watch?'' @ qry) = ''/watch''"
    unfolding w by (rule takeWhile_sep) simp
  have qr: "drop 1 (dropWhile (\<lambda>c. c \<noteq> CHR ''?'') (''/watch?'' @ qry)) = qry"
    unfolding w by (subst dropWhile_sep) simp_all
  show ?thesis
    unfolding urlparse_def urlsplit_authority [OF so au r] tw pth qr
    by (simp add: hostname_host_of)
qed

lemma parse_qsl_v:
  assumes i: "set ident \<subseteq> set id_chars" and n: "ident \<noteq> []"
    and q: "starts_with (\<lambda>c. c = CHR ''&'') q2"
  shows "\<exists>ys. parse_qsl ul (''v='' @ ident @ q2) = (''v'', ident) # ys"
proof -
  have v: "str_replace (CHR ''+'') (CHR '' '') ''v'' = ''v''"
    by (simp add: str_replace_def)
  have b: "parse_qsl ul (''v='' @ ident) = [(''v'', ident)]"
    using id_absent [OF i] n
    by (simp add: parse_qsl_def parse_field_def str_split_absent str_partition_def
        unquote_plus_def unquote_def str_replace_absent v)
  show ?thesis
  proof (cases q2)
    case Nil
    then show ?thesis using b by simp
  next
    case (Cons c m)
    with q have c: "c = CHR ''&''" by (simp add: starts_with_def)
    have "parse_qsl ul ((''v='' @ ident) @ CHR ''&'' # m) = parse_qsl ul (''v='' @ ident) @ parse_qsl ul m"
      by (rule parse_qsl_append)
    then show ?thesis using b Cons c by simp
  qed
qed

lemma map_of_first:
  assumes "k \<notin> fst ` set xs"
  shows "map_of (xs @ (k, v) # ys) k = Some v"
  using assms by (induction xs) auto

lemma id_no_unsafe: "set ident \<subseteq> set id_chars \<Longrightarrow> no_unsafe ident"
  using id_absent [of ident] by (simp add: no_unsafe_def)

lemma extract_short_link:
  assumes so: "valid_start so" and au: "authority ul auth"
    and h: "host_of auth = Some ''youtu.be''"
    and i: "set ident \<subseteq> set id_chars" and t: "tail_ok tail"
  shows "fst (extract_video_id ul (url_start so @ auth @ ''/'' @ ident @ tail) w) = Inr (Some ident)"
proof -
  from urlparse_path [OF so au id_no_unsafe [OF i] id_absent(6,7,8) [OF i] t]
  obtain p where p: "urlparse ul (url_start so @ auth @ CHR ''/'' # ident @ tail) = Inr p"
    and hp: "hostname p = host_of auth" and pp: "path p = CHR ''/'' # ident"
    by blast
  show ?thesis
    using extract_parsed(1) [OF p, of w] hp h pp by simp
qed

lemma extract_segment:
  assumes so: "valid_start so" and au: "authority ul auth"
    and h: "host_of auth \<in> {Some ''www.youtube.com'', Some ''youtube.com''}"
    and i: "set ident \<subseteq> set id_chars" and t: "segment_tail_ok tail"
  shows "fst (extract_video_id ul (url_start so @ auth @ ''/embed/'' @ ident @ tail) w) = Inr (Some ident)"
    and "fst (extract_video_id ul (url_start so @ auth @ ''/v/'' @ ident @ tail) w) = Inr (Some ident)"
proof -
  have tk: "takeWhile (\<lambda>c. c \<noteq> CHR ''/'') (ident @ x) = ident" if "x = [] \<or> hd x = CHR ''/''" for x
    using that id_absent(5) [OF i] by (cases x) (auto simp: takeWhile_neq_absent takeWhile_sep)
  have e: "no_unsafe (''embed/'' @ ident)" "CHR ''?'' \<notin> set (''embed/'' @ ident)"
    "CHR ''#'' \<notin> set (''embed/'' @ ident)" "CHR '';'' \<notin> set (''embed/'' @ ident)"
    using id_no_unsafe [OF i] id_absent [OF i] by (simp_all add: no_unsafe_def)
  from urlparse_segment [OF so au e t]
  obtain p where p: "urlparse ul (url_start so @ auth @ CHR ''/'' # (''embed/'' @ ident) @ tail) = Inr p"
    and hp: "hostname p = host_of auth"
    and pp: "path p = CHR ''/'' # ''embed/'' @ ident
             \<or> prefix ((CHR ''/'' # ''embed/'' @ ident) @ ''/'') (path p)"
    by blast
  from pp obtain x where x: "path p = ''/embed/'' @ ident @ x" "x = [] \<or> hd x = CHR ''/''"
    by (auto simp: prefix_def)
  have "fst (extract_video_id ul (url_start so @ auth @ CHR ''/'' # (''embed/'' @ ident) @ tail) w)
          = Inr (Some (takeWhile (\<lambda>c. c \<noteq> CHR ''/'') (drop 7 (path p))))"
    by (rule extract_parsed(3) [OF p]) (use h hp x in simp_all)
  then show "fst (extract_video_id ul (url_start so @ auth @ ''/embed/'' @ ident @ tail) w) = Inr (Some ident)"
    using x tk [of x] by simp
next
  have tk: "takeWhile (\<lambda>c. c \<noteq> CHR ''/'') (ident @ x) = ident" if "x = [] \<or> hd x = CHR ''/''" for x
    using that id_absent(5) [OF i] by (cases x) (auto simp: takeWhile_neq_absent takeWhile_sep)
  have e: "no_unsafe (''v/'' @ ident)" "CHR ''?'' \<notin> set (''v/'' @ ident)"
    "CHR ''#'' \<notin> set (''v/'' @ ident)" "CHR '';'' \<notin> set (''v/'' @ ident)"
    using id_no_unsafe [OF i] id_absent [OF i] by (simp_all add: no_unsafe_def)
  from urlparse_segment [OF so au e t]
  obtain p where p: "urlparse ul (url_start so @ auth @ CHR ''/'' # (''v/'' @ ident) @ tail) = Inr p"
    and hp: "hostname p = host_of auth"
    and pp: "path p = CHR ''/'' # ''v/'' @ ident
             \<or> prefix ((CHR ''/'' # ''v/'' @ ident) @ ''/'') (path p)"
    by blast
  from pp obtain x where x: "path p = ''/v/'' @ ident @ x" "x = [] \<or> hd x = CHR ''/''"
    by (auto simp: prefix_def)
  have "fst (extract_video_id ul (url_start so @ auth @ CHR ''/'' # (''v/'' @ ident) @ tail) w)
          = Inr (Some (takeWhile (\<lambda>c. c \<noteq> CHR ''/'') (drop 3 (path p))))"
    by (rule extract_parsed(4) [OF p]) (use h hp x in simp_all)
  then show "fst (extract_video_id ul (url_start so @ auth @ ''/v/'' @ ident @ tail) w) = Inr (Some ident)"
    using x tk [of x] by simp
qed

lemma extract_watch_shape:
  assumes so: "valid_start so" and au: "authority ul auth"
    and h: "host_of auth \<in> {Some ''www.youtube.com'', Some ''youtube.com''}"
    and i: "set ident \<subseteq> set id_chars" and n: "ident \<noteq> []"
    and b: "fields_before ul q1" and a: "fields_after q2" and f: "fragment_ok frag"
  shows "fst (extract_video_id ul
               (url_start so @ auth @ ''/watch?'' @ q1 @ ''v='' @ ident @ q2 @ frag) w)
         = Inr (Some ident)"
proof -
  let ?q = "q1 @ ''v='' @ ident @ q2"
  have q: "no_unsafe ?q" "CHR ''#'' \<notin> set ?q"
    using a b id_no_unsafe [OF i] id_absent(7) [OF i]
    by (simp_all add: fields_before_def fields_after_def no_unsafe_def)
  from urlparse_watch [OF so au q f]
  obtain p where p: "urlparse ul (url_start so @ auth @ ''/watch?'' @ ?q @ frag) = Inr p"
    and hp: "hostname p = host_of auth" and pp: "path p = ''/watch''" and qp: "query p = ?q"
    by blast
  from a have "starts_with (\<lambda>c. c = CHR ''&'') q2"
    by (simp add: fields_after_def)
  from parse_qsl_v [OF i n this]
  obtain ys where ys: "parse_qsl ul (''v='' @ ident @ q2) = (''v'', ident) # ys"
    by blast
  from b have l: "q1 = [] \<or> last q1 = CHR ''&''" and nv: "''v'' \<notin> fst ` set (parse_qsl ul q1)"
    by (simp_all add: fields_before_def)
  have "parse_qsl ul ?q = parse_qsl ul q1 @ (''v'', ident) # ys"
    using parse_qsl_before [OF l, of ul "''v='' @ ident @ q2"] ys by simp
  then have m: "map_of (parse_qsl ul ?q) ''v'' = Some ident"
    using map_of_first [OF nv] by simp
  have "fst (extract_video_id ul (url_start so @ auth @ ''/watch?'' @ ?q @ frag) w)
          = Inr (map_of (parse_qsl ul (query p)) ''v'')"
    by (rule extract_parsed(2) [OF p]) (use h hp pp in simp_all)
  then show ?thesis using m qp by simp
qed


lemma urlparse_raises: "urlparse ul url = Inl e \<Longrightarrow> e = ValueError"
  by (auto simp: urlparse_def urlsplit_def Let_def split: sum.splits prod.splits if_splits)

lemma extract_rejected: "urlparse ul url = Inl e \<Longrightarrow> fst (extract_video_id ul url w) = Inl e"
  by (simp add: extract_video_id_def)

lemma extract_other:
  assumes "urlparse ul url = Inr p"
    and "hostname p \<noteq> Some ''youtu.be''"
    and "hostname p \<notin> {Some ''www.youtube.com'', Some ''youtube.com''}
         \<or> (path p \<noteq> ''/watch'' \<and> \<not> prefix ''/embed/'' (path p) \<and> \<not> prefix ''/v/'' (path p))"
  shows "fst (extract_video_id ul url w) = Inr None"
  using assms by (auto simp add: extract_video_id_def)

text \<open>
  Claim C1 says that every URL of one of the four supported shapes yields its exact
  identifier substring and that every unsupported or malformed URL yields \<open>None\<close>. Three
  URLs show that it fails as stated. The canonical URL with the query \<open>v=A+B\<close> yields
  \<open>A B\<close>, which is no part of the URL: the query parser decodes. The short link with
  nothing after the slash is malformed and yields the empty string, not \<open>None\<close>. A URL
  with an unmatched bracket in its host yields no value: the URL parser raises
  \<^verbatim>\<open>ValueError\<close>.
\<close>

theorem extract_video_id_counterexample:
  "fst (extract_video_id example_lib ''https://www.youtube.com/watch?v=A+B'' example_world)
     = Inr (Some ''A B'')
   \<and> \<not> sublist ''A B'' ''https://www.youtube.com/watch?v=A+B''
   \<and> fst (extract_video_id example_lib ''https://youtu.be/'' example_world) = Inr (Some [])
   \<and> fst (extract_video_id example_lib ''http://[youtu.be/x'' example_world) = Inl ValueError"
  by code_simp

text \<open>
  Claim C1 as amended. For every URL that \<^verbatim>\<open>urlparse\<close> accepts, \<open>extract_video_id\<close>
  returns
  \<^item> the path without its first character when the host name is \<open>youtu.be\<close>;
  \<^item> the decoded value of the first query field that \<^verbatim>\<open>parse_qsl\<close> keeps (a field
    with a non-empty value) and whose decoded name is \<open>v\<close>, and \<open>None\<close> when there is
    no such field, when the host name is \<open>www.youtube.com\<close> or \<open>youtube.com\<close> and the
    path is \<open>/watch\<close>;
  \<^item> the path segment that follows \<open>/embed/\<close> or \<open>/v/\<close> when the host name is one of
    these two and the path starts with \<open>/embed/\<close> or \<open>/v/\<close>;
  \<^item> \<open>None\<close> in every other case: the host name is none of the three, or it is one
    of the two and the path is neither \<open>/watch\<close> nor under \<open>/embed/\<close> or \<open>/v/\<close>.

  The host name is the one \<^verbatim>\<open>urlparse\<close> reads from the authority: after the last
  \<^verbatim>\<open>@\<close>, before the port, in lower case. A URL that \<^verbatim>\<open>urlparse\<close> rejects yields no
  value: \<^verbatim>\<open>ValueError\<close> is raised.

  In particular, let \<open>ident\<close> be a non-empty string of letters, digits, hyphen and
  underscore, and let a URL start with any scheme and \<^verbatim>\<open>://\<close>, or with \<^verbatim>\<open>//\<close> alone,
  followed by an authority. Then \<open>extract_video_id\<close> returns exactly \<open>ident\<close> for
  \<^item> the short link: host name \<open>youtu.be\<close>, then \<^verbatim>\<open>/\<close> and \<open>ident\<close>, then nothing, a
    query or a fragment;
  \<^item> the watch page: host name \<open>www.youtube.com\<close> or \<open>youtube.com\<close>, then \<^verbatim>\<open>/watch?\<close>
    and a query in which \<^verbatim>\<open>v=\<close>\<open>ident\<close> stands after fields of other names (\<open>fields_before\<close>)
    and before further fields (\<open>fields_after\<close>), then nothing or a fragment;
  \<^item> the embedded player and the old player: host name \<open>www.youtube.com\<close> or
    \<open>youtube.com\<close>, then \<^verbatim>\<open>/embed/\<close> or \<^verbatim>\<open>/v/\<close> and \<open>ident\<close>, then nothing, further path
    segments, a query or a fragment.

  Both example URLs of the claim yield \<open>ABC123\<close>.
\<close>

theorem extract_video_id_shapes:
  "(urlparse ul url = Inl e
    \<longrightarrow> e = ValueError \<and> fst (extract_video_id ul url w) = Inl ValueError)
   \<and> (urlparse ul url = Inr p
    \<longrightarrow> (hostname p = Some ''youtu.be''
         \<longrightarrow> fst (extract_video_id ul url w) = Inr (Some (drop 1 (path p))))
      \<and> (hostname p \<in> {Some ''www.youtube.com'', Some ''youtube.com''} \<and> path p = ''/watch''
         \<longrightarrow> fst (extract_video_id ul url w) = Inr (map_of (parse_qsl ul (query p)) ''v''))
      \<and> (hostname p \<in> {Some ''www.youtube.com'', Some ''youtube.com''} \<and> prefix ''/embed/'' (path p)
         \<longrightarrow> fst (extract_video_id ul url w)
             = Inr (Some (takeWhile (\<lambda>c. c \<noteq> CHR ''/'') (drop 7 (path p)))))
      \<and> (hostname p \<in> {Some ''www.youtube.com'', Some ''youtube.com''} \<and> prefix ''/v/'' (path p)
         \<longrightarrow> fst (extract_video_id ul url w)
             = Inr (Some (takeWhile (\<lambda>c. c \<noteq> CHR ''/'') (drop 3 (path p)))))
      \<and> (hostname p \<noteq> Some ''youtu.be''
          \<and> (hostname p \<notin> {Some ''www.youtube.com'', Some ''youtube.com''}
             \<or> path p \<noteq> ''/watch'' \<and> \<not> prefix ''/embed/'' (path p) \<and> \<not> prefix ''/v/'' (path p))
         \<longrightarrow> fst (extract_video_id ul url w) = Inr None))
   \<and> (valid_start so \<and> authority ul auth \<and> ident \<noteq> [] \<and> set ident \<subseteq> set id_chars
    \<longrightarrow> (host_of auth = Some ''youtu.be'' \<and> tail_ok tail
         \<longrightarrow> fst (extract_video_id ul (url_start so @ auth @ ''/'' @ ident @ tail) w)
             = Inr (Some ident))
      \<and> (host_of auth \<in> {Some ''www.youtube.com'', Some ''youtube.com''}
          \<and> fields_before ul q1 \<and> fields_after q2 \<and> fragment_ok frag
         \<longrightarrow> fst (extract_video_id ul
                    (url_start so @ auth @ ''/watch?'' @ q1 @ ''v='' @ ident @ q2 @ frag) w)
             = Inr (Some ident))
      \<and> (host_of auth \<in> {Some ''www.youtube.com'', Some ''youtube.com''} \<and> segment_tail_ok tail
         \<longrightarrow> fst (extract_video_id ul (url_start so @ auth @ ''/embed/'' @ ident @ tail) w)
             = Inr (Some ident)
           \<and> fst (extract_video_id ul (url_start so @ auth @ ''/v/'' @ ident @ tail) w)
             = Inr (Some ident)))
   \<and> fst (extract_video_id ul ''https://www.youtube.com/watch?v=ABC123'' w) = Inr (Some ''ABC123'')
   \<and> fst (extract_video_id ul ''https://youtu.be/ABC123'' w) = Inr (Some ''ABC123'')"
proof (intro conjI impI)
  assume e: "urlparse ul url = Inl e"
  show "e = ValueError"
    by (rule urlparse_raises [OF e])
  then show "fst (extract_video_id ul url w) = Inl ValueError"
    using extract_rejected [OF e] by simp
next
  assume p: "urlparse ul url = Inr p"
  show "fst (extract_video_id ul url w) = Inr (Some (drop 1 (path p)))"
    if "hostname p = Some ''youtu.be''"
    by (rule extract_parsed(1) [OF p that])
  show "fst (extract_video_id ul url w) = Inr (map_of (parse_qsl ul (query p)) ''v'')"
    if "hostname p \<in> {Some ''www.youtube.com'', Some ''youtube.com''} \<and> path p = ''/watch''"
    by (rule extract_parsed(2) [OF p]) (use that in simp_all)
  show "fst (extract_video_id ul url w)
          = Inr (Some (takeWhile (\<lambda>c. c \<noteq> CHR ''/'') (drop 7 (path p))))"
    if "hostname p \<in> {Some ''www.youtube.com'', Some ''youtube.com''} \<and> prefix ''/embed/'' (path p)"
    by (rule extract_parsed(3) [OF p]) (use that in simp_all)
  show "fst (extract_video_id ul url w)
          = Inr (Some (takeWhile (\<lambda>c. c \<noteq> CHR ''/'') (drop 3 (path p))))"
    if "hostname p \<in> {Some ''www.youtube.com'', Some ''youtube.com''} \<and> prefix ''/v/'' (path p)"
    by (rule extract_parsed(4) [OF p]) (use that in simp_all)
  show "fst (extract_video_id ul url w) = Inr None"
    if "hostname p \<noteq> Some ''youtu.be''
          \<and> (hostname p \<notin> {Some ''www.youtube.com'', Some ''youtube.com''}
             \<or> path p \<noteq> ''/watch'' \<and> \<not> prefix ''/embed/'' (path p) \<and> \<not> prefix ''/v/'' (path p))"
    by (rule extract_other [OF p]) (use that in simp_all)
next
  assume a: "valid_start so \<and> authority ul auth \<and> ident \<noteq> [] \<and> set ident \<subseteq> set id_chars"
  then have so: "valid_start so" and au: "authority ul auth" and n: "ident \<noteq> []"
    and i: "set ident \<subseteq> set id_chars"
    by simp_all
  show "fst (extract_video_id ul (url_start so @ auth @ ''/'' @ ident @ tail) w) = Inr (Some ident)"
    if "host_of auth = Some ''youtu.be'' \<and> tail_ok tail"
    by (rule extract_short_link [OF so au _ i]) (use that in simp_all)
  show "fst (extract_video_id ul
               (url_start so @ auth @ ''/watch?'' @ q1 @ ''v='' @ ident @ q2 @ frag) w)
          = Inr (Some ident)"
    if "host_of auth \<in> {Some ''www.youtube.com'', Some ''youtube.com''}
          \<and> fields_before ul q1 \<and> fields_after q2 \<and> fragment_ok frag"
    by (rule extract_watch_shape [OF so au _ i n]) (use that in simp_all)
  show "fst (extract_video_id ul (url_start so @ auth @ ''/embed/'' @ ident @ tail) w)
          = Inr (Some ident)"
    if "host_of auth \<in> {Some ''www.youtube.com'', Some ''youtube.com''} \<and> segment_tail_ok tail"
    by (rule extract_segment(1) [OF so au _ i]) (use that in simp_all)
  show "fst (extract_video_id ul (url_start so @ auth @ ''/v/'' @ ident @ tail) w)
          = Inr (Some ident)"
    if "host_of auth \<in> {Some ''www.youtube.com'', Some ''youtube.com''} \<and> segment_tail_ok tail"
    by (rule extract_segment(2) [OF so au _ i]) (use that in simp_all)
next
  show "fst (extract_video_id ul ''https://www.youtube.com/watch?v=ABC123'' w) = Inr (Some ''ABC123'')"
    by code_simp
  show "fst (extract_video_id ul ''https://youtu.be/ABC123'' w) = Inr (Some ''ABC123'')"
    by code_simp
qed


theorem extract_video_id_shapes_witness:
  "urlparse example_lib ''http://[youtu.be/x'' = Inl ValueError
   \<and> fst (extract_video_id example_lib ''http://[youtu.be/x'' example_world) = Inl ValueError
   \<and> fst (extract_video_id example_lib ''https://youtu.be/ABC123?si=xyz'' example_world)
       = Inr (Some ''ABC123'')
   \<and> fst (extract_video_id example_lib
            ''https://www.youtube.com/watch?feature=share&v=ABC123&t=10s'' example_world)
       = Inr (Some ''ABC123'')
   \<and> fst (extract_video_id example_lib ''https://www.youtube.com/watch?list=PL1'' example_world)
       = Inr None
   \<and> fst (extract_video_id example_lib ''https://www.youtube.com:443/embed/ABC123?rel=0'' example_world)
       = Inr (Some ''ABC123'')
   \<and> fst (extract_video_id example_lib ''https://WWW.YouTube.com/v/ABC123#t=1'' example_world)
       = Inr (Some ''ABC123'')
   \<and> fst (extract_video_id example_lib ''https://vimeo.com/76979871'' example_world) = Inr None
   \<and> fst (extract_video_id example_lib ''https://www.youtube.com/playlist?list=PL1'' example_world)
       = Inr None
   \<and> valid_start (Some ''ftp'') \<and> authority example_lib ''user@WWW.YouTube.com:443''
   \<and> host_of ''user@WWW.YouTube.com:443'' = Some ''www.youtube.com''
   \<and> set ''dQw4w9WgXcQ'' \<subseteq> set id_chars
   \<and> fields_before example_lib ''feature=share&'' \<and> fields_after ''&t=10s'' \<and> fragment_ok ''#top''
   \<and> segment_tail_ok ''/x?rel=0''
   \<and> fst (extract_video_id example_lib
            ''ftp://user@WWW.YouTube.com:443/watch?feature=share&v=dQw4w9WgXcQ&t=10s#top'' example_world)
       = Inr (Some ''dQw4w9WgXcQ'')
   \<and> fst (extract_video_id example_lib
            ''ftp://user@WWW.YouTube.com:443/embed/dQw4w9WgXcQ/x?rel=0'' example_world)
       = Inr (Some ''dQw4w9WgXcQ'')
   \<and> fst (extract_video_id example_lib
            ''ftp://user@WWW.YouTube.com:443/v/dQw4w9WgXcQ/x?rel=0'' example_world)
       = Inr (Some ''dQw4w9WgXcQ'')
   \<and> valid_start None \<and> authority example_lib ''Youtu.be:80''
   \<and> host_of ''Youtu.be:80'' = Some ''youtu.be'' \<and> tail_ok ''?si=xyz''
   \<and> fst (extract_video_id example_lib ''//Youtu.be:80/dQw4w9WgXcQ?si=xyz'' example_world)
       = Inr (Some ''dQw4w9WgXcQ'')"
proof -
  let ?L = example_lib
  let ?W = example_world
  let ?p1 = "\<lparr>scheme = ''https'', netloc = ''youtu.be'', path = ''/ABC123'', query = ''si=xyz'',
              fragment = []\<rparr>"
  let ?p2 = "\<lparr>scheme = ''https'', netloc = ''www.youtube.com'', path = ''/watch'',
              query = ''feature=share&v=ABC123&t=10s'', fragment = []\<rparr>"
  let ?p3 = "\<lparr>scheme = ''https'', netloc = ''www.youtube.com'', path = ''/watch'',
              query = ''list=PL1'', fragment = []\<rparr>"
  let ?p4 = "\<lparr>scheme = ''https'', netloc = ''www.youtube.com:443'', path = ''/embed/ABC123'',
              query = ''rel=0'', fragment = []\<rparr>"
  let ?p5 = "\<lparr>scheme = ''https'', netloc = ''WWW.YouTube.com'', path = ''/v/ABC123'',
              query = [], fragment = ''t=1''\<rparr>"
  let ?p6 = "\<lparr>scheme = ''https'', netloc = ''vimeo.com'', path = ''/76979871'', query = [],
              fragment = []\<rparr>"
  let ?p7 = "\<lparr>scheme = ''https'', netloc = ''www.youtube.com'', path = ''/playlist'',
              query = ''list=PL1'', fragment = []\<rparr>"
  have u0: "urlparse ?L ''http://[youtu.be/x'' = Inl ValueError" by code_simp
  have u1: "urlparse ?L ''https://youtu.be/ABC123?si=xyz'' = Inr ?p1" by code_simp
  have u2: "urlparse ?L ''https://www.youtube.com/watch?feature=share&v=ABC123&t=10s'' = Inr ?p2"
    by code_simp
  have u3: "urlparse ?L ''https://www.youtube.com/watch?list=PL1'' = Inr ?p3" by code_simp
  have u4: "urlparse ?L ''https://www.youtube.com:443/embed/ABC123?rel=0'' = Inr ?p4" by code_simp
  have u5: "urlparse ?L ''https://WWW.YouTube.com/v/ABC123#t=1'' = Inr ?p5" by code_simp
  have u6: "urlparse ?L ''https://vimeo.com/76979871'' = Inr ?p6" by code_simp
  have u7: "urlparse ?L ''https://www.youtube.com/playlist?list=PL1'' = Inr ?p7" by code_simp
  have h1: "hostname ?p1 = Some ''youtu.be''" by code_simp
  have h2: "hostname ?p2 = Some ''www.youtube.com''" by code_simp
  have h3: "hostname ?p3 = Some ''www.youtube.com''" by code_simp
  have h4: "hostname ?p4 = Some ''www.youtube.com''" by code_simp
  have h5: "hostname ?p5 = Some ''www.youtube.com''" by code_simp
  have h6: "hostname ?p6 = Some ''vimeo.com''" by code_simp
  have h7: "hostname ?p7 = Some ''www.youtube.com''" by code_simp
  have m2: "map_of (parse_qsl ?L ''feature=share&v=ABC123&t=10s'') ''v'' = Some ''ABC123''"
    by code_simp
  have m3: "map_of (parse_qsl ?L ''list=PL1'') ''v'' = None" by code_simp
  have s: "valid_start (Some ''ftp'')" "authority ?L ''user@WWW.YouTube.com:443''"
    "host_of ''user@WWW.YouTube.com:443'' = Some ''www.youtube.com''"
    "fields_before ?L ''feature=share&''" "fields_after ''&t=10s''" "fragment_ok ''#top''"
    "segment_tail_ok ''/x?rel=0''"
    "valid_start None" "authority ?L ''Youtu.be:80''"
    "host_of ''Youtu.be:80'' = Some ''youtu.be''" "tail_ok ''?si=xyz''"
    by code_simp+
  have i: "set ''dQw4w9WgXcQ'' \<subseteq> set id_chars"
    by (simp add: id_chars_def)
  have r0: "fst (extract_video_id ?L ''http://[youtu.be/x'' ?W) = Inl ValueError"
    using extract_video_id_shapes [where ul = ?L and w = ?W and url = "''http://[youtu.be/x''"
        and e = ValueError]
    by (simp add: u0)
  have r1: "fst (extract_video_id ?L ''https://youtu.be/ABC123?si=xyz'' ?W) = Inr (Some ''ABC123'')"
    using extract_video_id_shapes [where ul = ?L and w = ?W
        and url = "''https://youtu.be/ABC123?si=xyz''" and p = ?p1]
    by (simp add: u1 h1)
  have r2: "fst (extract_video_id ?L ''https://www.youtube.com/watch?feature=share&v=ABC123&t=10s'' ?W)
              = Inr (Some ''ABC123'')"
    using extract_video_id_shapes [where ul = ?L and w = ?W
        and url = "''https://www.youtube.com/watch?feature=share&v=ABC123&t=10s''" and p = ?p2]
    by (simp add: u2 h2 m2)
  have r3: "fst (extract_video_id ?L ''https://www.youtube.com/watch?list=PL1'' ?W) = Inr None"
    using extract_video_id_shapes [where ul = ?L and w = ?W
        and url = "''https://www.youtube.com/watch?list=PL1''" and p = ?p3]
    by (simp add: u3 h3 m3)
  have r4: "fst (extract_video_id ?L ''https://www.youtube.com:443/embed/ABC123?rel=0'' ?W)
              = Inr (Some ''ABC123'')"
    using extract_video_id_shapes [where ul = ?L and w = ?W
        and url = "''https://www.youtube.com:443/embed/ABC123?rel=0''" and p = ?p4]
    by (simp add: u4 h4)
  have r5: "fst (extract_video_id ?L ''https://WWW.YouTube.com/v/ABC123#t=1'' ?W)
              = Inr (Some ''ABC123'')"
    using extract_video_id_shapes [where ul = ?L and w = ?W
        and url = "''https://WWW.YouTube.com/v/ABC123#t=1''" and p = ?p5]
    by (simp add: u5 h5)
  have r6: "fst (extract_video_id ?L ''https://vimeo.com/76979871'' ?W) = Inr None"
    using extract_video_id_shapes [where ul = ?L and w = ?W
        and url = "''https://vimeo.com/76979871''" and p = ?p6]
    by (simp add: u6 h6)
  have r7: "fst (extract_video_id ?L ''https://www.youtube.com/playlist?list=PL1'' ?W) = Inr None"
    using extract_video_id_shapes [where ul = ?L and w = ?W
        and url = "''https://www.youtube.com/playlist?list=PL1''" and p = ?p7]
    by (simp add: u7 h7)
  have r8: "fst (extract_video_id ?L
                  ''ftp://user@WWW.YouTube.com:443/watch?feature=share&v=dQw4w9WgXcQ&t=10s#top'' ?W)
              = Inr (Some ''dQw4w9WgXcQ'')
            \<and> fst (extract_video_id ?L ''ftp://user@WWW.YouTube.com:443/embed/dQw4w9WgXcQ/x?rel=0'' ?W)
              = Inr (Some ''dQw4w9WgXcQ'')
            \<and> fst (extract_video_id ?L ''ftp://user@WWW.YouTube.com:443/v/dQw4w9WgXcQ/x?rel=0'' ?W)
              = Inr (Some ''dQw4w9WgXcQ'')"
    using extract_video_id_shapes [where ul = ?L and w = ?W and so = "Some ''ftp''"
        and auth = "''user@WWW.YouTube.com:443''" and ident = "''dQw4w9WgXcQ''"
        and ?q1.0 = "''feature=share&''" and ?q2.0 = "''&t=10s''" and frag = "''#top''"
        and tail = "''/x?rel=0''"]
    by (simp add: s id_chars_def url_start_def)
  have r9: "fst (extract_video_id ?L ''//Youtu.be:80/dQw4w9WgXcQ?si=xyz'' ?W)
              = Inr (Some ''dQw4w9WgXcQ'')"
    using extract_video_id_shapes [where ul = ?L and w = ?W and so = None
        and auth = "''Youtu.be:80''" and ident = "''dQw4w9WgXcQ''" and tail = "''?si=xyz''"]
    by (simp add: s id_chars_def url_start_def)
  from u0 r0 r1 r2 r3 r4 r5 r6 r7 s i r8 r9 show ?thesis
    by simp
qed

section \<open>Identifiers that are empty\<close>

text \<open>
  Claim C10. For the URLs \<^verbatim>\<open>https://youtu.be/\<close> and \<^verbatim>\<open>https://www.youtube.com/embed/\<close>,
  whose identifier segment is empty, \<open>extract_video_id\<close> returns the empty string and
  not \<open>None\<close>. \<open>main\<close> treats \<open>None\<close> and the empty string alike: it logs the invalid URL
  and returns with no call to a collaborator and no file.
\<close>

theorem empty_identifier_is_failure:
  "fst (extract_video_id ul ''https://youtu.be/'' w) = Inr (Some [])
   \<and> fst (extract_video_id ul ''https://www.youtube.com/embed/'' w) = Inr (Some [])
   \<and> (fst (extract_video_id (lib env) url w) = Inr r \<and> (r = None \<or> r = Some [])
      \<longrightarrow> fst (main env url w) = Inr ()
        \<and> calls (snd (main env url w)) = calls w
        \<and> files (snd (main env url w)) = files w
        \<and> last (logs (snd (main env url w))) =
            (ERROR, ''Invalid YouTube URL. Please provide a valid YouTube video URL.''))"
proof (intro conjI impI)
  show "fst (extract_video_id ul ''https://youtu.be/'' w) = Inr (Some [])"
    by code_simp
  show "fst (extract_video_id ul ''https://www.youtube.com/embed/'' w) = Inr (Some [])"
    by code_simp
next
  assume a: "fst (extract_video_id (lib env) url w) = Inr r \<and> (r = None \<or> r = Some [])"
  then have x: "fst (extract_video_id (lib env) url w) = Inr r" and r: "r = None \<or> r = Some []"
    by simp_all
  show "fst (main env url w) = Inr ()"
    by (rule main_invalid_url [OF x r])
  show "calls (snd (main env url w)) = calls w"
    by (rule main_invalid_url [OF x r])
  show "files (snd (main env url w)) = files w"
    by (rule main_invalid_url [OF x r])
  show "last (logs (snd (main env url w))) =
          (ERROR, ''Invalid YouTube URL. Please provide a valid YouTube video URL.'')"
    by (rule main_invalid_url [OF x r])
qed

theorem empty_identifier_is_failure_witness:
  "fst (extract_video_id example_lib ''https://youtu.be/'' example_world) = Inr (Some [])
   \<and> fst (main (example_env (Inr example_info) (Inr example_entries)
                   (Inr (example_response 200 example_payload)))
            ''https://youtu.be/'' example_world) = Inr ()
   \<and> calls (snd (main (example_env (Inr example_info) (Inr example_entries)
                          (Inr (example_response 200 example_payload)))
                   ''https://youtu.be/'' example_world)) = []
   \<and> files (snd (main (example_env (Inr example_info) (Inr example_entries)
                          (Inr (example_response 200 example_payload)))
                   ''https://youtu.be/'' example_world)) = files example_world
   \<and> last (logs (snd (main (example_env (Inr example_info) (Inr example_entries)
                               (Inr (example_response 200 example_payload)))
                        ''https://youtu.be/'' example_world))) =
       (ERROR, ''Invalid YouTube URL. Please provide a valid YouTube video URL.'')"
proof -
  let ?E = "example_env (Inr example_info) (Inr example_entries) (Inr (example_response 200 example_payload))"
  have e: "lib ?E = example_lib" "calls example_world = []"
    by (simp_all add: example_env_def example_world_def)
  have x: "fst (extract_video_id example_lib ''https://youtu.be/'' example_world) = Inr (Some [])"
    by code_simp
  show ?thesis
    using empty_identifier_is_failure
      [where ul = example_lib and w = example_world and env = ?E and url = "''https://youtu.be/''"
         and r = "Some []"]
    by (simp add: e x)
qed

section \<open>The transcript\<close>





text \<open>
  Claim C8. Whatever error the transcript collaborator raises (rate limiting, disabled
  captions, an unavailable video or any other exception of class \<^verbatim>\<open>Exception\<close>, here with
  its text \<open>e\<close>), \<open>get_transcript\<close> returns the one failure signal \<open>None\<close> and the log gets
  the error's text; the result is the same for every such error, so its kind does not
  reach the caller.
\<close>

theorem get_transcript_error:
  "yt_get_transcript env video_id = Inl (Error e) \<Longrightarrow>
     fst (get_transcript env video_id w) = Inr None
     \<and> logs (snd (get_transcript env video_id w)) =
         logs w @ [(INFO, ''Fetching transcript for video ID: '' @ video_id),
                   (ERROR, ''An error occurred while fetching the transcript: '' @ e)]"
  by (simp add: get_transcript_def Let_def)

theorem get_transcript_error_witness:
  "yt_get_transcript (example_env (Inr example_info) (Inl (Error ''Subtitles are disabled'')) (Inl (Error ''down'')))
       ''ABC123'' = Inl (Error ''Subtitles are disabled'')
   \<and> fst (get_transcript (example_env (Inr example_info) (Inl (Error ''Subtitles are disabled'')) (Inl (Error ''down'')))
            ''ABC123'' example_world) = Inr None
   \<and> logs (snd (get_transcript (example_env (Inr example_info) (Inl (Error ''Subtitles are disabled'')) (Inl (Error ''down'')))
                  ''ABC123'' example_world)) =
       [(INFO, ''Fetching transcript for video ID: ABC123''),
        (ERROR, ''An error occurred while fetching the transcript: Subtitles are disabled'')]"
  using get_transcript_error
          [of "example_env (Inr example_info) (Inl (Error ''Subtitles are disabled'')) (Inl (Error ''down''))"
              "''ABC123''" "''Subtitles are disabled''" example_world]
  by (simp add: example_env_def example_world_def)

section \<open>The request to the generation API\<close>

text \<open>
  Claim C7. For every transcript, the one request that \<open>generate_summary\<close> sends carries,
  as the content of its only message, a prompt in which the whole transcript stands
  unchanged as a contiguous part.
\<close>

theorem prompt_contains_transcript:
  "calls (snd (generate_summary env content w)) =
     calls w @ [Post \<lparr>post_url = CLAUDE_API_URL env,
                      post_headers = [(''Content-Type'', ''application/json''),
                                      (''x-api-key'', CLAUDE_API_KEY env),
                                      (''anthropic-version'', ''2023-06-01'')],
                      post_json = \<lparr>model = ''claude-3-opus-20240229'', max_tokens = 1000,
                                   messages = [\<lparr>msg_role = ''user'',
                                                msg_content = prompt_head @ content @ prompt_tail\<rparr>]\<rparr>\<rparr>]
   \<and> sublist content (prompt_head @ content @ prompt_tail)"
  using generate_summary_calls [of env content w]
  by (simp add: api_request_def)

text \<open>
  Claim C9. For every prompt, \<open>claude_api_request\<close> posts to the configured endpoint a
  body with the fixed model name, the fixed token limit 1000 and the prompt as the
  content of one message of role \<open>user\<close>, under a content-type header, the API key and
  the version token. When the answer has status 200 and its document has a \<open>content\<close>
  list whose first element has a string under \<open>text\<close>, that string is what is returned.
\<close>

theorem claude_api_request_contract:
  "calls (snd (claude_api_request env prompt w)) =
     calls w @ [Post \<lparr>post_url = CLAUDE_API_URL env,
                      post_headers = [(''Content-Type'', ''application/json''),
                                      (''x-api-key'', CLAUDE_API_KEY env),
                                      (''anthropic-version'', ''2023-06-01'')],
                      post_json = \<lparr>model = ''claude-3-opus-20240229'', max_tokens = 1000,
                                   messages = [\<lparr>msg_role = ''user'', msg_content = prompt\<rparr>]\<rparr>\<rparr>]
   \<and> (requests_post env (api_request env prompt) = Inr response
        \<and> status_code response = 200
        \<and> response_json response = Inr (JObj doc)
        \<and> map_of doc ''content'' = Some (JArr (JObj item # items))
        \<and> map_of item ''text'' = Some (JStr summary)
       \<longrightarrow> fst (claude_api_request env prompt w) = Inr (Some (JStr summary)))"
  using claude_api_request_calls [of env prompt w]
  by (simp add: api_request_def claude_api_request_def response_content_def then_raise_def Let_def)

theorem claude_api_request_contract_witness:
  "requests_post (example_env (Inr example_info) (Inr example_entries) (Inr (example_response 200 example_payload)))
      (api_request (example_env (Inr example_info) (Inr example_entries) (Inr (example_response 200 example_payload)))
         ''Summarize this.'')
     = Inr (example_response 200 example_payload)
   \<and> status_code (example_response 200 example_payload) = 200
   \<and> response_json (example_response 200 example_payload)
       = Inr (JObj [(''id'', JStr ''msg_1''),
                    (''content'', JArr [JObj [(''type'', JStr ''text''), (''text'', JStr ''A summary.'')]])])
   \<and> fst (claude_api_request
            (example_env (Inr example_info) (Inr example_entries) (Inr (example_response 200 example_payload)))
            ''Summarize this.'' example_world) = Inr (Some (JStr ''A summary.''))"
  using claude_api_request_contract
    [of "example_env (Inr example_info) (Inr example_entries) (Inr (example_response 200 example_payload))"
        "''Summarize this.''" example_world "example_response 200 example_payload"
        "[(''id'', JStr ''msg_1''),
          (''content'', JArr [JObj [(''type'', JStr ''text''), (''text'', JStr ''A summary.'')]])]"
        "[(''type'', JStr ''text''), (''text'', JStr ''A summary.'')]" "[]" "''A summary.''"]
  by (simp add: example_env_def example_response_def example_payload_def)

text \<open>
  Claim C4. When the generation API answers with a status other than 200 (so with any
  status that is not a success), \<open>claude_api_request\<close> returns the failure signal \<open>None\<close>
  and logs the body of the answer as it is. In a run that gets as far as the request
  and receives such an answer, \<open>generate_summary\<close> returns \<open>None\<close> too and \<open>main\<close> ends
  without opening a file: the files are those of the start, the calls are the three
  lookups, and the log has the body.
\<close>

theorem non_success_status:
  "(requests_post env (api_request env prompt) = Inr response \<and> status_code response \<noteq> 200 \<longrightarrow>
      fst (claude_api_request env prompt w) = Inr None
      \<and> logs (snd (claude_api_request env prompt w)) =
          logs w @ [(INFO, ''Sending request to Claude Opus API''),
                    (INFO, ''Claude API response status code: '' @ str_int (status_code response)),
                    (ERROR, ''Error from Claude API: '' @ response_text response)])
   \<and> (fst (extract_video_id (lib env) url w) = Inr (Some video_id) \<and> video_id \<noteq> []
      \<and> extract_info env (''https://www.youtube.com/watch?v='' @ video_id) = Inr info
      \<and> info ''title'' = Some video_title \<and> video_title \<noteq> []
      \<and> yt_get_transcript env video_id = Inr es \<and> str_join '' '' (map entry_text es) \<noteq> []
      \<and> requests_post env (api_request env (prompt_head @ str_join '' '' (map entry_text es) @ prompt_tail))
           = Inr response
      \<and> status_code response \<noteq> 200
      \<longrightarrow> fst (generate_summary env (str_join '' '' (map entry_text es)) w) = Inr None
        \<and> fst (main env url w) = Inr ()
        \<and> files (snd (main env url w)) = files w
        \<and> calls (snd (main env url w)) =
            calls w @ [ExtractInfo (''https://www.youtube.com/watch?v='' @ video_id),
                       GetTranscript video_id,
                       Post (api_request env (prompt_head @ str_join '' '' (map entry_text es) @ prompt_tail))]
        \<and> (ERROR, ''Error from Claude API: '' @ response_text response) \<in> set (logs (snd (main env url w))))"
proof (intro conjI impI)
  assume a: "requests_post env (api_request env prompt) = Inr response \<and> status_code response \<noteq> 200"
  show "fst (claude_api_request env prompt w) = Inr None"
    using a by (simp add: claude_api_request_non_success)
  show "logs (snd (claude_api_request env prompt w)) =
          logs w @ [(INFO, ''Sending request to Claude Opus API''),
                    (INFO, ''Claude API response status code: '' @ str_int (status_code response)),
                    (ERROR, ''Error from Claude API: '' @ response_text response)]"
    using a by (simp add: claude_api_request_non_success)
next
  let ?tr = "str_join '' '' (map entry_text es)"
  let ?W = "before_summary env url video_id w"
  assume a: "fst (extract_video_id (lib env) url w) = Inr (Some video_id) \<and> video_id \<noteq> []
      \<and> extract_info env (''https://www.youtube.com/watch?v='' @ video_id) = Inr info
      \<and> info ''title'' = Some video_title \<and> video_title \<noteq> []
      \<and> yt_get_transcript env video_id = Inr es \<and> ?tr \<noteq> []
      \<and> requests_post env (api_request env (prompt_head @ ?tr @ prompt_tail)) = Inr response
      \<and> status_code response \<noteq> 200"
  obtain r w4 where g: "generate_summary env ?tr ?W = (r, w4)"
    by (cases "generate_summary env ?tr ?W")
  have r: "r = Inr None"
    using generate_summary_result [of env ?tr ?W] g a
    by (simp add: claude_api_request_non_success)
  have m: "main env url w = (Inr (), finished (logger_error ''Failed to generate summary'' (pbar_update 1 w4)))"
    using a by (simp add: main_reaches_summary [of env url w video_id info video_title es] g r truthy_json_def)
  have c4: "calls w4 = calls ?W @ [Post (api_request env (prompt_head @ ?tr @ prompt_tail))]"
    using generate_summary_calls [of env ?tr ?W] g by simp
  have f4: "files w4 = files ?W"
    using generate_summary_files [of env ?tr ?W] g by simp
  obtain ms where l4: "logs w4 = logs (snd (claude_api_request env (prompt_head @ ?tr @ prompt_tail) (logger_info ''Generating summary'' ?W))) @ ms"
    using generate_summary_logs [of env ?tr ?W] g by auto
  show "fst (generate_summary env ?tr w) = Inr None"
    using a by (simp add: generate_summary_result claude_api_request_non_success)
  show "fst (main env url w) = Inr ()" by (simp add: m)
  show "files (snd (main env url w)) = files w" by (simp add: m f4 before_summary_files)
  show "calls (snd (main env url w)) =
            calls w @ [ExtractInfo (''https://www.youtube.com/watch?v='' @ video_id),
                       GetTranscript video_id,
                       Post (api_request env (prompt_head @ ?tr @ prompt_tail))]"
    by (simp add: m c4 before_summary_calls)
  show "(ERROR, ''Error from Claude API: '' @ response_text response) \<in> set (logs (snd (main env url w)))"
    using a by (simp add: m l4 claude_api_request_non_success)
qed


theorem non_success_status_witness:
  "requests_post (example_env (Inr example_info) (Inr example_entries) (Inr (example_response 529 JNull)))
      (api_request (example_env (Inr example_info) (Inr example_entries) (Inr (example_response 529 JNull)))
         (prompt_head @ ''a b c'' @ prompt_tail))
     = Inr (example_response 529 JNull)
   \<and> status_code (example_response 529 JNull) = 529
   \<and> fst (extract_video_id example_lib ''https://youtu.be/ABC123'' example_world) = Inr (Some ''ABC123'')
   \<and> example_info ''title'' = Some ''A talk''
   \<and> str_join '' '' (map entry_text example_entries) = ''a b c''
   \<and> fst (claude_api_request
            (example_env (Inr example_info) (Inr example_entries) (Inr (example_response 529 JNull)))
            (prompt_head @ ''a b c'' @ prompt_tail) example_world) = Inr None
   \<and> fst (main (example_env (Inr example_info) (Inr example_entries) (Inr (example_response 529 JNull)))
            ''https://youtu.be/ABC123'' example_world) = Inr ()
   \<and> files (snd (main (example_env (Inr example_info) (Inr example_entries) (Inr (example_response 529 JNull)))
                   ''https://youtu.be/ABC123'' example_world)) = files example_world
   \<and> calls (snd (main (example_env (Inr example_info) (Inr example_entries) (Inr (example_response 529 JNull)))
                   ''https://youtu.be/ABC123'' example_world)) =
       [ExtractInfo ''https://www.youtube.com/watch?v=ABC123'', GetTranscript ''ABC123'',
        Post (api_request (example_env (Inr example_info) (Inr example_entries) (Inr (example_response 529 JNull)))
                (prompt_head @ ''a b c'' @ prompt_tail))]
   \<and> (ERROR, ''Error from Claude API: the body'')
       \<in> set (logs (snd (main (example_env (Inr example_info) (Inr example_entries) (Inr (example_response 529 JNull)))
                          ''https://youtu.be/ABC123'' example_world)))"
proof -
  let ?E = "example_env (Inr example_info) (Inr example_entries) (Inr (example_response 529 JNull))"
  have x: "fst (extract_video_id example_lib ''https://youtu.be/ABC123'' example_world) = Inr (Some ''ABC123'')"
    by code_simp
  have j: "str_join '' '' (map entry_text example_entries) = ''a b c''"
    by (simp add: example_entries_def)
  have t: "example_info ''title'' = Some ''A talk''"
    by (simp add: example_info_def)
  have e: "lib ?E = example_lib" "extract_info ?E u = Inr example_info"
    "yt_get_transcript ?E v = Inr example_entries" "requests_post ?E r = Inr (example_response 529 JNull)"
    "status_code (example_response 529 JNull) = 529" "response_text (example_response 529 JNull) = ''the body''"
    "calls example_world = []" for u v r
    by (simp_all add: example_env_def example_response_def example_world_def)
  show ?thesis
    using non_success_status
      [of ?E "prompt_head @ ''a b c'' @ prompt_tail" "example_response 529 JNull" example_world
          "''https://youtu.be/ABC123''" "''ABC123''" example_info "''A talk''" example_entries]
    by (simp add: x j t e)
qed

section \<open>A payload without the expected fields\<close>

text \<open>
  Claim C5 says that a status-200 answer whose document lacks the \<open>content\<close> field, or
  whose first content element lacks \<open>text\<close>, makes \<open>claude_api_request\<close> return the
  failure signal. It does not: the subscript raises \<^verbatim>\<open>KeyError\<close>, which nothing catches.
  For the empty document under status 200 the result is the exception, not \<open>None\<close>.
\<close>

theorem missing_content_counterexample:
  "fst (claude_api_request
          (example_env (Inr example_info) (Inr example_entries) (Inr (example_response 200 (JObj []))))
          ''Summarize this.'' example_world) = Inl KeyError
   \<and> fst (claude_api_request
          (example_env (Inr example_info) (Inr example_entries) (Inr (example_response 200 (JObj []))))
          ''Summarize this.'' example_world) \<noteq> Inr None"
  by (simp add: claude_api_request_def Let_def example_env_def example_response_def
      response_content_def then_raise_def)

text \<open>
  Claim C5 as amended. For an answer of status 200 whose document is an object without
  \<open>content\<close>, or whose \<open>content\<close> list starts with an object without \<open>text\<close>,
  \<open>claude_api_request\<close> returns no text and no failure signal: it raises \<^verbatim>\<open>KeyError\<close>. In
  a run that gets as far as the request, \<open>main\<close> ends with that exception after the
  three lookups, and no file is written.
\<close>

theorem missing_field_raises:
  "(requests_post env (api_request env prompt) = Inr response
     \<and> status_code response = 200 \<and> response_json response = Inr (JObj doc)
     \<and> (map_of doc ''content'' = None
          \<or> map_of doc ''content'' = Some (JArr (JObj item # items)) \<and> map_of item ''text'' = None)
    \<longrightarrow> fst (claude_api_request env prompt w) = Inl KeyError
      \<and> files (snd (claude_api_request env prompt w)) = files w)
   \<and> (fst (extract_video_id (lib env) url w) = Inr (Some video_id) \<and> video_id \<noteq> []
     \<and> extract_info env (''https://www.youtube.com/watch?v='' @ video_id) = Inr info
     \<and> info ''title'' = Some video_title \<and> video_title \<noteq> []
     \<and> yt_get_transcript env video_id = Inr es \<and> str_join '' '' (map entry_text es) \<noteq> []
     \<and> requests_post env (api_request env (prompt_head @ str_join '' '' (map entry_text es) @ prompt_tail))
          = Inr response
     \<and> status_code response = 200 \<and> response_json response = Inr (JObj doc)
     \<and> (map_of doc ''content'' = None
          \<or> map_of doc ''content'' = Some (JArr (JObj item # items)) \<and> map_of item ''text'' = None)
    \<longrightarrow> fst (main env url w) = Inl KeyError
      \<and> calls (snd (main env url w)) =
          calls w @ [ExtractInfo (''https://www.youtube.com/watch?v='' @ video_id),
                     GetTranscript video_id,
                     Post (api_request env
                             (prompt_head @ str_join '' '' (map entry_text es) @ prompt_tail))]
      \<and> files (snd (main env url w)) = files w)"
proof (intro conjI impI)
  assume a: "requests_post env (api_request env prompt) = Inr response
     \<and> status_code response = 200 \<and> response_json response = Inr (JObj doc)
     \<and> (map_of doc ''content'' = None
          \<or> map_of doc ''content'' = Some (JArr (JObj item # items)) \<and> map_of item ''text'' = None)"
  then show "fst (claude_api_request env prompt w) = Inl KeyError"
    by (intro claude_api_request_missing_field [where response = response and doc = doc
          and item = item and items = items]) simp_all
  show "files (snd (claude_api_request env prompt w)) = files w"
    by (rule claude_api_request_files)
next
  let ?tr = "str_join '' '' (map entry_text es)"
  assume a: "fst (extract_video_id (lib env) url w) = Inr (Some video_id) \<and> video_id \<noteq> []
     \<and> extract_info env (''https://www.youtube.com/watch?v='' @ video_id) = Inr info
     \<and> info ''title'' = Some video_title \<and> video_title \<noteq> []
     \<and> yt_get_transcript env video_id = Inr es \<and> ?tr \<noteq> []
     \<and> requests_post env (api_request env (prompt_head @ ?tr @ prompt_tail)) = Inr response
     \<and> status_code response = 200 \<and> response_json response = Inr (JObj doc)
     \<and> (map_of doc ''content'' = None
          \<or> map_of doc ''content'' = Some (JArr (JObj item # items)) \<and> map_of item ''text'' = None)"
  then have x: "fst (extract_video_id (lib env) url w) = Inr (Some video_id)" and v: "video_id \<noteq> []"
    and i: "extract_info env (''https://www.youtube.com/watch?v='' @ video_id) = Inr info"
    and t: "info ''title'' = Some video_title" "video_title \<noteq> []"
    and f: "yt_get_transcript env video_id = Inr es" "?tr \<noteq> []"
    and p: "requests_post env (api_request env (prompt_head @ ?tr @ prompt_tail)) = Inr response"
    and s: "status_code response = 200" and j: "response_json response = Inr (JObj doc)"
    and m: "map_of doc ''content'' = None
          \<or> (map_of doc ''content'' = Some (JArr (JObj item # items)) \<and> map_of item ''text'' = None)"
    by simp_all
  have g: "fst (generate_summary env ?tr w) = Inl KeyError"
    unfolding generate_summary_result
    by (rule claude_api_request_missing_field [OF p s j m])
  show "fst (main env url w) = Inl KeyError"
    by (rule main_summary_raises [OF x v i t f g])
  show "calls (snd (main env url w)) =
      calls w @ [ExtractInfo (''https://www.youtube.com/watch?v='' @ video_id), GetTranscript video_id,
                 Post (api_request env (prompt_head @ ?tr @ prompt_tail))]"
    by (rule main_summary_raises [OF x v i t f g])
  show "files (snd (main env url w)) = files w"
    by (rule main_summary_raises [OF x v i t f g])
qed

theorem missing_field_raises_witness:
  "response_json (example_response 200 (JObj [(''content'', JArr [JObj [(''type'', JStr ''text'')]])]))
     = Inr (JObj [(''content'', JArr [JObj [(''type'', JStr ''text'')]])])
   \<and> map_of [(''type'', JStr ''text'')] ''text'' = None
   \<and> fst (claude_api_request
            (example_env (Inr example_info) (Inr example_entries)
               (Inr (example_response 200 (JObj [(''content'', JArr [JObj [(''type'', JStr ''text'')]])]))))
            ''Summarize this.'' example_world) = Inl KeyError
   \<and> fst (extract_video_id example_lib ''https://youtu.be/ABC123'' example_world) = Inr (Some ''ABC123'')
   \<and> fst (main (example_env (Inr example_info) (Inr example_entries)
                   (Inr (example_response 200 (JObj [(''content'', JArr [JObj [(''type'', JStr ''text'')]])]))))
            ''https://youtu.be/ABC123'' example_world) = Inl KeyError
   \<and> files (snd (main (example_env (Inr example_info) (Inr example_entries)
                   (Inr (example_response 200 (JObj [(''content'', JArr [JObj [(''type'', JStr ''text'')]])]))))
            ''https://youtu.be/ABC123'' example_world)) = files example_world"
proof -
  let ?R = "example_response 200 (JObj [(''content'', JArr [JObj [(''type'', JStr ''text'')]])])"
  let ?E = "example_env (Inr example_info) (Inr example_entries) (Inr ?R)"
  have x: "fst (extract_video_id example_lib ''https://youtu.be/ABC123'' example_world) = Inr (Some ''ABC123'')"
    by code_simp
  have j: "str_join '' '' (map entry_text example_entries) = ''a b c''"
    by (simp add: example_entries_def)
  have t: "example_info ''title'' = Some ''A talk''"
    by (simp add: example_info_def)
  have e: "lib ?E = example_lib" "extract_info ?E u = Inr example_info"
    "yt_get_transcript ?E v = Inr example_entries" "requests_post ?E rq = Inr ?R"
    "status_code ?R = 200"
    "response_json ?R = Inr (JObj [(''content'', JArr [JObj [(''type'', JStr ''text'')]])])"
    "calls example_world = []" for u v rq
    by (simp_all add: example_env_def example_response_def example_world_def)
  have a: "fst (claude_api_request ?E ''Summarize this.'' example_world) = Inl KeyError"
    using missing_field_raises
      [where env = ?E and prompt = "''Summarize this.''" and response = ?R and w = example_world
         and doc = "[(''content'', JArr [JObj [(''type'', JStr ''text'')]])]"
         and item = "[(''type'', JStr ''text'')]" and items = "[]"]
    by (simp add: e)
  have b: "fst (main ?E ''https://youtu.be/ABC123'' example_world) = Inl KeyError
           \<and> files (snd (main ?E ''https://youtu.be/ABC123'' example_world)) = files example_world"
    using missing_field_raises
      [where env = ?E and response = ?R and w = example_world and url = "''https://youtu.be/ABC123''"
         and video_id = "''ABC123''" and info = example_info and video_title = "''A talk''"
         and es = example_entries
         and doc = "[(''content'', JArr [JObj [(''type'', JStr ''text'')]])]"
         and item = "[(''type'', JStr ''text'')]" and items = "[]"]
    by (simp add: e x j t)
  from a b x e(6) show ?thesis by simp
qed

section \<open>The order of the steps\<close>

text \<open>
  Claim C3. In a run whose metadata fetch returns no title or an empty one, \<open>main\<close>
  makes the metadata call and nothing after it: no transcript fetch, no request to the
  generation API, no file. The same holds further on: when the transcript step fails
  (the collaborator raises an error, or the joined transcript is empty), the calls end
  with the transcript fetch; when the summarisation step returns a value that counts as
  false, the calls end with the request and no file is opened.
\<close>

theorem first_failure_aborts:
  "(fst (extract_video_id (lib env) url w) = Inr (Some video_id) \<and> video_id \<noteq> []
     \<and> extract_info env (''https://www.youtube.com/watch?v='' @ video_id) = Inr info
     \<and> (info ''title'' = None \<or> info ''title'' = Some [])
    \<longrightarrow> fst (main env url w) = Inr ()
      \<and> calls (snd (main env url w)) =
          calls w @ [ExtractInfo (''https://www.youtube.com/watch?v='' @ video_id)]
      \<and> files (snd (main env url w)) = files w)
   \<and> (fst (extract_video_id (lib env) url w) = Inr (Some video_id) \<and> video_id \<noteq> []
     \<and> extract_info env (''https://www.youtube.com/watch?v='' @ video_id) = Inr info
     \<and> info ''title'' = Some video_title \<and> video_title \<noteq> []
     \<and> (yt_get_transcript env video_id = Inl (Error e)
          \<or> yt_get_transcript env video_id = Inr es \<and> str_join '' '' (map entry_text es) = [])
    \<longrightarrow> fst (main env url w) = Inr ()
      \<and> calls (snd (main env url w)) =
          calls w @ [ExtractInfo (''https://www.youtube.com/watch?v='' @ video_id),
                     GetTranscript video_id]
      \<and> files (snd (main env url w)) = files w)
   \<and> (fst (extract_video_id (lib env) url w) = Inr (Some video_id) \<and> video_id \<noteq> []
     \<and> extract_info env (''https://www.youtube.com/watch?v='' @ video_id) = Inr info
     \<and> info ''title'' = Some video_title \<and> video_title \<noteq> []
     \<and> yt_get_transcript env video_id = Inr es \<and> str_join '' '' (map entry_text es) \<noteq> []
     \<and> fst (generate_summary env (str_join '' '' (map entry_text es)) w') = Inr r
     \<and> truthy_json r = None
    \<longrightarrow> fst (main env url w) = Inr ()
      \<and> calls (snd (main env url w)) =
          calls w @ [ExtractInfo (''https://www.youtube.com/watch?v='' @ video_id),
                     GetTranscript video_id,
                     Post (api_request env
                             (prompt_head @ str_join '' '' (map entry_text es) @ prompt_tail))]
      \<and> files (snd (main env url w)) = files w)"
proof (intro conjI impI)
  assume a: "fst (extract_video_id (lib env) url w) = Inr (Some video_id) \<and> video_id \<noteq> []
     \<and> extract_info env (''https://www.youtube.com/watch?v='' @ video_id) = Inr info
     \<and> (info ''title'' = None \<or> info ''title'' = Some [])"
  then have t: "truthy_str (info ''title'') = None"
    by (auto simp: truthy_str_def)
  from a t show "fst (main env url w) = Inr ()"
    by (simp add: main_metadata_failure)
  from a t show "calls (snd (main env url w)) =
      calls w @ [ExtractInfo (''https://www.youtube.com/watch?v='' @ video_id)]"
    by (simp add: main_metadata_failure)
  from a t show "files (snd (main env url w)) = files w"
    by (simp add: main_metadata_failure)
next
  assume a: "fst (extract_video_id (lib env) url w) = Inr (Some video_id) \<and> video_id \<noteq> []
     \<and> extract_info env (''https://www.youtube.com/watch?v='' @ video_id) = Inr info
     \<and> info ''title'' = Some video_title \<and> video_title \<noteq> []
     \<and> (yt_get_transcript env video_id = Inl (Error e)
          \<or> yt_get_transcript env video_id = Inr es \<and> str_join '' '' (map entry_text es) = [])"
  then have x: "fst (extract_video_id (lib env) url w) = Inr (Some video_id)" and v: "video_id \<noteq> []"
    and i: "extract_info env (''https://www.youtube.com/watch?v='' @ video_id) = Inr info"
    and t: "info ''title'' = Some video_title" "video_title \<noteq> []"
    and f: "yt_get_transcript env video_id = Inl (Error e)
            \<or> (yt_get_transcript env video_id = Inr es \<and> str_join '' '' (map entry_text es) = [])"
    by simp_all
  show "fst (main env url w) = Inr ()"
    by (rule main_transcript_failure [OF x v i t f])
  show "calls (snd (main env url w)) =
      calls w @ [ExtractInfo (''https://www.youtube.com/watch?v='' @ video_id), GetTranscript video_id]"
    by (rule main_transcript_failure [OF x v i t f])
  show "files (snd (main env url w)) = files w"
    by (rule main_transcript_failure [OF x v i t f])
next
  assume a: "fst (extract_video_id (lib env) url w) = Inr (Some video_id) \<and> video_id \<noteq> []
     \<and> extract_info env (''https://www.youtube.com/watch?v='' @ video_id) = Inr info
     \<and> info ''title'' = Some video_title \<and> video_title \<noteq> []
     \<and> yt_get_transcript env video_id = Inr es \<and> str_join '' '' (map entry_text es) \<noteq> []
     \<and> fst (generate_summary env (str_join '' '' (map entry_text es)) w') = Inr r
     \<and> truthy_json r = None"
  then have x: "fst (extract_video_id (lib env) url w) = Inr (Some video_id)" and v: "video_id \<noteq> []"
    and i: "extract_info env (''https://www.youtube.com/watch?v='' @ video_id) = Inr info"
    and t: "info ''title'' = Some video_title" "video_title \<noteq> []"
    and f: "yt_get_transcript env video_id = Inr es" "str_join '' '' (map entry_text es) \<noteq> []"
    and g: "fst (generate_summary env (str_join '' '' (map entry_text es)) w') = Inr r"
           "truthy_json r = None"
    by simp_all
  show "fst (main env url w) = Inr ()"
    by (rule main_summary_failure [OF x v i t f g])
  show "calls (snd (main env url w)) =
      calls w @ [ExtractInfo (''https://www.youtube.com/watch?v='' @ video_id), GetTranscript video_id,
                 Post (api_request env (prompt_head @ str_join '' '' (map entry_text es) @ prompt_tail))]"
    by (rule main_summary_failure [OF x v i t f g])
  show "files (snd (main env url w)) = files w"
    by (rule main_summary_failure [OF x v i t f g])
qed

theorem first_failure_aborts_witness:
  "fst (extract_video_id example_lib ''https://youtu.be/ABC123'' example_world) = Inr (Some ''ABC123'')
   \<and> example_untitled ''title'' = None
   \<and> calls (snd (main (example_env (Inr example_untitled) (Inr example_entries)
                          (Inr (example_response 200 example_payload)))
                   ''https://youtu.be/ABC123'' example_world)) =
       [ExtractInfo ''https://www.youtube.com/watch?v=ABC123'']
   \<and> files (snd (main (example_env (Inr example_untitled) (Inr example_entries)
                          (Inr (example_response 200 example_payload)))
                   ''https://youtu.be/ABC123'' example_world)) = files example_world
   \<and> example_info ''title'' = Some ''A talk''
   \<and> calls (snd (main (example_env (Inr example_info) (Inl (Error ''Subtitles are disabled''))
                          (Inr (example_response 200 example_payload)))
                   ''https://youtu.be/ABC123'' example_world)) =
       [ExtractInfo ''https://www.youtube.com/watch?v=ABC123'', GetTranscript ''ABC123'']
   \<and> files (snd (main (example_env (Inr example_info) (Inl (Error ''Subtitles are disabled''))
                          (Inr (example_response 200 example_payload)))
                   ''https://youtu.be/ABC123'' example_world)) = files example_world
   \<and> fst (generate_summary (example_env (Inr example_info) (Inr example_entries)
                               (Inr (example_response 529 JNull)))
            ''a b c'' example_world) = Inr None
   \<and> calls (snd (main (example_env (Inr example_info) (Inr example_entries)
                          (Inr (example_response 529 JNull)))
                   ''https://youtu.be/ABC123'' example_world)) =
       [ExtractInfo ''https://www.youtube.com/watch?v=ABC123'', GetTranscript ''ABC123'',
        Post (api_request (example_env (Inr example_info) (Inr example_entries)
                             (Inr (example_response 529 JNull)))
                (prompt_head @ ''a b c'' @ prompt_tail))]
   \<and> files (snd (main (example_env (Inr example_info) (Inr example_entries)
                          (Inr (example_response 529 JNull)))
                   ''https://youtu.be/ABC123'' example_world)) = files example_world"
proof -
  let ?A = "example_env (Inr example_untitled) (Inr example_entries) (Inr (example_response 200 example_payload))"
  let ?B = "example_env (Inr example_info) (Inl (Error ''Subtitles are disabled''))
              (Inr (example_response 200 example_payload))"
  let ?C = "example_env (Inr example_info) (Inr example_entries) (Inr (example_response 529 JNull))"
  have x: "fst (extract_video_id example_lib ''https://youtu.be/ABC123'' example_world) = Inr (Some ''ABC123'')"
    by code_simp
  have j: "str_join '' '' (map entry_text example_entries) = ''a b c''"
    by (simp add: example_entries_def)
  have t: "example_info ''title'' = Some ''A talk''" "example_untitled ''title'' = None"
    by (simp_all add: example_info_def example_untitled_def)
  have e: "lib (example_env i tr rs) = example_lib" "extract_info (example_env i tr rs) u = i"
    "yt_get_transcript (example_env i tr rs) v = tr" "requests_post (example_env i tr rs) rq = rs"
    "status_code (example_response 529 JNull) = 529" "calls example_world = []" for i tr rs u v rq
    by (simp_all add: example_env_def example_response_def example_world_def)
  have g: "fst (generate_summary ?C ''a b c'' example_world) = Inr None"
    by (simp add: generate_summary_result claude_api_request_non_success [where response = "example_response 529 JNull"] e)
  have a: "calls (snd (main ?A ''https://youtu.be/ABC123'' example_world)) =
             [ExtractInfo ''https://www.youtube.com/watch?v=ABC123'']
           \<and> files (snd (main ?A ''https://youtu.be/ABC123'' example_world)) = files example_world"
    using first_failure_aborts
      [where env = ?A and url = "''https://youtu.be/ABC123''" and w = example_world
         and video_id = "''ABC123''" and info = example_untitled]
    by (simp add: x t e)
  have b: "calls (snd (main ?B ''https://youtu.be/ABC123'' example_world)) =
             [ExtractInfo ''https://www.youtube.com/watch?v=ABC123'', GetTranscript ''ABC123'']
           \<and> files (snd (main ?B ''https://youtu.be/ABC123'' example_world)) = files example_world"
    using first_failure_aborts
      [where env = ?B and url = "''https://youtu.be/ABC123''" and w = example_world
         and video_id = "''ABC123''" and info = example_info and video_title = "''A talk''"
         and e = "''Subtitles are disabled''"]
    by (simp add: x t e)
  have c: "calls (snd (main ?C ''https://youtu.be/ABC123'' example_world)) =
             [ExtractInfo ''https://www.youtube.com/watch?v=ABC123'', GetTranscript ''ABC123'',
              Post (api_request ?C (prompt_head @ ''a b c'' @ prompt_tail))]
           \<and> files (snd (main ?C ''https://youtu.be/ABC123'' example_world)) = files example_world"
    using first_failure_aborts
      [where env = ?C and url = "''https://youtu.be/ABC123''" and w = example_world
         and video_id = "''ABC123''" and info = example_info and video_title = "''A talk''"
         and es = example_entries and w' = example_world and r = None]
    by (simp add: x t e j g truthy_json_def)
  from x t a b c g show ?thesis by simp
qed

section \<open>The output file\<close>

text \<open>
  Claim C2. For every identifier, title, summary text and transcript, \<open>save_to_file\<close>
  opens exactly one file, named by the identifier followed by \<open>_summary.txt\<close>, with the
  encoding UTF-8, and leaves in it, in this order and each once and whole: the title
  line, the line of the canonical URL, a blank line, the label \<open>Summary:\<close>, the summary,
  two line ends, the label \<open>Full Transcript:\<close> and the transcript. No other file
  changes; the one call recorded is the opening of that file.
\<close>

theorem save_to_file_content:
  "save_to_file video_id video_title (JStr summary) transcript w =
     (Inr (),
      w\<lparr>logs := logs w @ [(INFO, ''Summary and transcript saved to '' @ video_id @ ''_summary.txt'')],
        calls := calls w @ [OpenFile (video_id @ ''_summary.txt'')],
        files := (files w)(video_id @ ''_summary.txt'' \<mapsto>
           \<lparr>file_encoding = ''utf-8'',
            file_text = ''Video Title: '' @ video_title @ ''\<newline>''
              @ ''Video URL: https://www.youtube.com/watch?v='' @ video_id @ ''\<newline>''
              @ ''\<newline>''
              @ ''Summary:\<newline>''
              @ summary
              @ ''\<newline>\<newline>''
              @ ''Full Transcript:\<newline>''
              @ transcript\<rparr>)\<rparr>)"
  by (simp add: save_to_file_def Let_def logger_info_def record_call_def open_w_def f_write_def)

end
